theory Spec2Isabelle
  imports Complex_Main "HOL-Library.Signed_Division" "HOL-Library.Sublist"
begin

section \<open>JavaScript values used by the UMA service\<close>

text \<open>
  The service is JavaScript (services/uma.js, server.js, services/users.js). A query
  parameter or an optional field is \<open>undefined\<close> or a string: \<open>string option\<close>. A
  JavaScript string is falsy exactly when it is empty, so \<open>!x\<close> on such a value is
  \<open>\<not> truthy x\<close>, and \<open>x || d\<close> is \<open>orElse x d\<close>. Numbers that the code treats as
  integers (multipliers, the bounds of a currency) are \<open>int\<close>; a number read from an object
  that may lack the key is \<open>int option\<close>, falsy when missing or zero. The object of
  multipliers that the market-rate module returns is an association list from currency
  code to multiplier, read with \<open>map_of\<close>. Strings are ASCII:
  \<open>toLowerCase\<close> and \<open>toUpperCase\<close> change the 26 letters only.

  The amount of a request is a number that \<open>parseInt\<close> produced: an integer that a
  double holds, \<open>NaN\<close>, or an infinity.
\<close>

datatype number = NaN | Num int | PosInfinity | NegInfinity

definition isNaN :: "number \<Rightarrow> bool" where
  "isNaN x = (x = NaN)"

text \<open>\<open>x <= 0\<close>, which is false for \<open>NaN\<close>.\<close>

definition lessEqZero :: "number \<Rightarrow> bool" where
  "lessEqZero x = (case x of Num a \<Rightarrow> a \<le> 0 | NegInfinity \<Rightarrow> True | _ \<Rightarrow> False)"

text \<open>
  \<open>x - f\<close> for an integer \<open>f\<close>; the only subtraction of the code has \<open>f = 0\<close>,
  where the double result is exact.
\<close>

definition numberMinus :: "number \<Rightarrow> int \<Rightarrow> number" where
  "numberMinus x f = (case x of Num a \<Rightarrow> Num (a - f) | _ \<Rightarrow> x)"

definition numberName :: "number \<Rightarrow> string" where
  "numberName x = (case x of NaN \<Rightarrow> ''NaN'' | PosInfinity \<Rightarrow> ''Infinity''
                           | NegInfinity \<Rightarrow> ''-Infinity'' | Num a \<Rightarrow> [])"

definition truthy :: "string option \<Rightarrow> bool" where
  "truthy x = (case x of None \<Rightarrow> False | Some s \<Rightarrow> s \<noteq> [])"

definition orElse :: "string option \<Rightarrow> string \<Rightarrow> string" where
  "orElse x d = (case x of None \<Rightarrow> d | Some s \<Rightarrow> if s = [] then d else s)"

definition truthyNum :: "int option \<Rightarrow> bool" where
  "truthyNum x = (case x of None \<Rightarrow> False | Some n \<Rightarrow> n \<noteq> 0)"

definition lowerLetters :: string where
  "lowerLetters = ''abcdefghijklmnopqrstuvwxyz''"

definition upperLetters :: string where
  "upperLetters = ''ABCDEFGHIJKLMNOPQRSTUVWXYZ''"

definition toLowerChar :: "char \<Rightarrow> char" where
  "toLowerChar c = (case map_of (zip upperLetters lowerLetters) c of None \<Rightarrow> c | Some l \<Rightarrow> l)"

definition toUpperChar :: "char \<Rightarrow> char" where
  "toUpperChar c = (case map_of (zip lowerLetters upperLetters) c of None \<Rightarrow> c | Some u \<Rightarrow> u)"

definition toLowerCase :: "string \<Rightarrow> string" where
  "toLowerCase s = map toLowerChar s"

definition toUpperCase :: "string \<Rightarrow> string" where
  "toUpperCase s = map toUpperChar s"

text \<open>\<open>s.includes(pat)\<close>: \<open>pat\<close> occurs in \<open>s\<close> as a contiguous substring.\<close>

fun includesStr :: "string \<Rightarrow> string \<Rightarrow> bool" where
  "includesStr [] pat = (pat = [])"
| "includesStr (c # cs) pat = (prefix pat (c # cs) \<or> includesStr cs pat)"

text \<open>\<open>s.startsWith(pat)\<close> and \<open>s.slice(2)\<close>, as generateLightningInvoice uses them.\<close>

definition startsWith :: "string \<Rightarrow> string \<Rightarrow> bool" where
  "startsWith s pat = prefix pat s"

text \<open>
  The decimal digits of a non-negative integer, and the rendering of an integer with its
  sign: what \<open>toString()\<close> gives for a BigInt, and what a template literal gives for a
  number that is an integer below 10^21, such as \<open>Date.now()\<close>.
\<close>

definition digitChar :: "int \<Rightarrow> char" where
  "digitChar d = ''0123456789'' ! nat d"

function decimal :: "int \<Rightarrow> string" where
  "decimal n = (if n < 10 then [digitChar n] else decimal (n div 10) @ [digitChar (n mod 10)])"
  by pat_completeness auto
termination
  by (relation "measure nat") auto

declare decimal.simps [simp del]

definition integerToString :: "int \<Rightarrow> string" where
  "integerToString k = (if k < 0 then CHR ''-'' # decimal (- k) else decimal k)"

text \<open>
  Exceptions. \<open>Error m\<close> is \<open>new Error(m)\<close>; \<open>TypeError\<close> and \<open>RangeError\<close> are
  the runtime's own, thrown by property access on \<open>undefined\<close>, by \<open>BigInt(undefined)\<close>
  and by BigInt division by zero. Each carries its message.
\<close>

datatype error = Error string | TypeError string | RangeError string

fun errorMessage :: "error \<Rightarrow> string" where
  "errorMessage (Error m) = m"
| "errorMessage (TypeError m) = m"
| "errorMessage (RangeError m) = m"

text \<open>
  \<open>BigInt(x)\<close> for \<open>x\<close> a number or \<open>undefined\<close>: only an integer converts. The
  BigInt quotient \<open>a / b\<close> truncates toward zero and throws on a zero divisor.
\<close>

fun BigInt :: "number option \<Rightarrow> error + int" where
  "BigInt None = Inl (TypeError ''Cannot convert undefined to a BigInt'')"
| "BigInt (Some (Num n)) = Inr n"
| "BigInt (Some x) =
     Inl (RangeError (''The number '' @ numberName x
                      @ '' cannot be converted to a BigInt because it is not an integer''))"

definition bigintDiv :: "int \<Rightarrow> int \<Rightarrow> error + int" where
  "bigintDiv a b = (if b = 0 then Inl (RangeError ''Division by zero'') else Inr (a sdiv b))"

text \<open>
  Reading a property of an object literal. A name that the object does not define itself
  is looked up in \<open>Object.prototype\<close>: \<open>table['constructor']\<close> is the function
  \<open>Object\<close>, a truthy value without the table's fields. \<open>Inherited\<close> stands for
  such a value.
\<close>

datatype 'a property = Undefined | Own 'a | Inherited

definition objectPrototypeNames :: "string list" where
  "objectPrototypeNames =
     [''constructor'', ''__proto__'', ''hasOwnProperty'', ''isPrototypeOf'',
      ''propertyIsEnumerable'', ''toLocaleString'', ''toString'', ''valueOf'',
      ''__defineGetter__'', ''__defineSetter__'', ''__lookupGetter__'', ''__lookupSetter__'']"

definition getProperty :: "(string \<Rightarrow> 'a option) \<Rightarrow> string \<Rightarrow> 'a property" where
  "getProperty table k =
     (case table k of
        Some v \<Rightarrow> Own v
      | None \<Rightarrow> if k \<in> set objectPrototypeNames then Inherited else Undefined)"

text \<open>
  An object used as a dictionary is an association list in the order in which its keys
  were created. \<open>Object.entries\<close> lists the keys that are array indices first, in
  ascending order, and then the other keys in creation order.
\<close>

definition isDigit :: "char \<Rightarrow> bool" where
  "isDigit c = (c \<in> set ''0123456789'')"

definition digitValue :: "char \<Rightarrow> int" where
  "digitValue c = (case map_of (zip ''0123456789'' [0, 1, 2, 3, 4, 5, 6, 7, 8, 9]) c of
                     None \<Rightarrow> 0 | Some v \<Rightarrow> v)"

definition digitsValue :: "string \<Rightarrow> int" where
  "digitsValue ds = foldl (\<lambda>a c. 10 * a + digitValue c) 0 ds"

definition isArrayIndex :: "string \<Rightarrow> bool" where
  "isArrayIndex k =
     (k \<noteq> [] \<and> list_all isDigit k \<and> (k = ''0'' \<or> hd k \<noteq> CHR ''0'')
      \<and> digitsValue k < 4294967295)"

definition ownEntries :: "(string \<times> 'v) list \<Rightarrow> (string \<times> 'v) list" where
  "ownEntries obj =
     sort_key (\<lambda>kv. digitsValue (fst kv)) (filter (\<lambda>kv. isArrayIndex (fst kv)) obj)
     @ filter (\<lambda>kv. \<not> isArrayIndex (fst kv)) obj"


section \<open>The record store\<close>

text \<open>
  The collections the engine reads and writes (services/users.js, db/schema.sql). An
  \<open>_id\<close> is a MongoDB ObjectId, an object and therefore always truthy: \<open>oid\<close>, with
  \<open>None\<close> for a document that has none. The creation time of a record is left out.
\<close>

type_synonym oid = nat

record user =
  user_oid :: "oid option"
  username :: string
  domain_id :: oid
  display_name :: "string option"
  spark_public_key :: "string option"

record chain_address =
  address_user_id :: oid
  chain_name :: string
  address :: string
  is_active :: bool

record payment_request =
  payment_user_id :: oid
  nonce :: string
  amount_msats :: number
  currency :: "string option"
  settlement_layer :: "string option"
  asset_identifier :: "string option"
  invoice :: string

text \<open>
  The parameters of \<open>wallet.createLightningInvoice\<close> (the Spark SDK), and the engine's
  state: the three collections, the lazily initialised wallet handle of the service
  object, and the invoices the Spark SDK has issued so far (what the external service
  has been made to do). The model is sequential: a call runs to completion before the
  next starts, so \<open>isInitializing\<close> is false whenever a call begins and the branch of
  initializeSparkWallet that waits for another initialiser is never taken.
\<close>

type_synonym wallet = nat

record invoice_params =
  amountSats :: number
  memo :: string
  includeSparkAddress :: bool
  receiverIdentityPubkey :: "string option"

record state =
  users :: "user list"
  chain_addresses :: "chain_address list"
  payment_requests :: "payment_request list"
  sparkWallet :: "wallet option"
  issued :: "(invoice_params \<times> string) list"

text \<open>The tenant (domain) document and its per-currency settings.\<close>

record currency_setting =
  active :: bool
  minSendable :: int
  maxSendable :: int

record domain =
  domain_oid :: oid
  domain_name :: string
  is_default :: bool
  currency_settings :: "(string \<times> currency_setting) list option"

text \<open>config/currencies.js, one entry per currency code.\<close>

record currency_config =
  config_code :: string
  config_name :: string
  config_symbol :: string
  config_decimals :: nat

text \<open>
  What the engine is given from outside: the two configuration tables
  (config/chain-mapping.js maps a chain name to its layer and asset), the market-rate
  module, the process environment, the Spark SDK and the domain service. The fields give
  the tables' own entries. The chain mapping is the object literal that the earlier
  services/uma.js has inline, and the service reads it with \<open>getProperty\<close>, which
  also finds what such an object inherits. The market-rate lookup, the wallet
  initialisation and the invoice creation can throw. The settings of a domain are the
  entries of its settings object, with distinct keys.
\<close>

record env =
  CHAIN_MAPPING :: "string \<Rightarrow> (string \<times> string) option"
  CURRENCIES :: "string \<Rightarrow> currency_config option"
  calculateMultipliers :: "string \<Rightarrow> string list \<Rightarrow> error + (string \<times> int) list"
  SPARK_SEED :: "string option"
  BASE_URL :: "string option"
  NODE_ENV :: "string option"
  SparkWallet_initialize :: "string \<Rightarrow> error + wallet"
  createLightningInvoice :: "wallet \<Rightarrow> invoice_params \<Rightarrow> error + string"
  getDomainByName :: "string \<Rightarrow> domain option"

subsection \<open>services/users.js\<close>

definition getUserByUsernameAndDomain :: "state \<Rightarrow> string \<Rightarrow> oid \<Rightarrow> user option" where
  "getUserByUsernameAndDomain st name domainId =
     find (\<lambda>u. username u = name \<and> domain_id u = domainId) (users st)"

definition getUserAddresses :: "state \<Rightarrow> oid \<Rightarrow> chain_address list" where
  "getUserAddresses st userId =
     filter (\<lambda>a. address_user_id a = userId \<and> is_active a) (chain_addresses st)"

text \<open>
  Assigning to a key that is present replaces its value in place; a new key is added at
  the end. Assigning an object to the key \<open>__proto__\<close> sets the prototype and adds no
  key. The value stored for a chain is the record \<open>{address, chainId?}\<close> that
  getFormattedAddresses builds, where \<open>chainId\<close> is present when
  \<open>chainIdMap[chain_name]\<close> is truthy; buildSettlementOptions also accepts a plain
  address string in its place.
\<close>

fun assign :: "(string \<times> 'v) list \<Rightarrow> string \<Rightarrow> 'v \<Rightarrow> (string \<times> 'v) list" where
  "assign [] k v = [(k, v)]"
| "assign ((k', v') # kvs) k v =
     (if k' = k then (k, v) # kvs else (k', v') # assign kvs k v)"

datatype chain_data = Plain string | Formatted string "int property"

definition chainIdMap :: "string \<Rightarrow> int option" where
  "chainIdMap = map_of [(''ethereum'', 1), (''polygon'', 137), (''arbitrum'', 42161),
                        (''optimism'', 10), (''base'', 8453)]"

definition chainIdOf :: "string \<Rightarrow> int property" where
  "chainIdOf name =
     (case getProperty chainIdMap name of
        Own n \<Rightarrow> if n = 0 then Undefined else Own n
      | p \<Rightarrow> p)"

fun formatAddresses ::
  "(string \<times> chain_data) list \<Rightarrow> chain_address list \<Rightarrow> (string \<times> chain_data) list" where
  "formatAddresses formatted [] = formatted"
| "formatAddresses formatted (addr # rest) =
     formatAddresses
       (if chain_name addr = ''__proto__'' then formatted
        else assign formatted (chain_name addr)
               (Formatted (address addr) (chainIdOf (chain_name addr))))
       rest"

definition getFormattedAddresses :: "state \<Rightarrow> oid \<Rightarrow> (string \<times> chain_data) list" where
  "getFormattedAddresses st userId = formatAddresses [] (getUserAddresses st userId)"

subsection \<open>services/payments.js\<close>

text \<open>
  Modelled from the spec: services/payments.js is not among the sources. The spec gives
  the record store get and insert on payment requests with a uniqueness constraint on
  the nonce (db/schema.sql: \<open>nonce TEXT UNIQUE NOT NULL\<close>), and generatePayResponse
  tests the result of createPaymentRequest against \<open>null\<close>: the lookup returns the
  record with the nonce if there is one, and the insert adds a record and returns its id,
  or adds nothing and returns \<open>null\<close> when the nonce is taken.
\<close>

definition getPaymentRequestByNonce :: "state \<Rightarrow> string \<Rightarrow> payment_request option" where
  "getPaymentRequestByNonce st n = find (\<lambda>r. nonce r = n) (payment_requests st)"

definition createPaymentRequest ::
  "oid \<Rightarrow> string \<Rightarrow> number \<Rightarrow> string option \<Rightarrow> string option \<Rightarrow> string option \<Rightarrow> string \<Rightarrow>
   state \<Rightarrow> oid option \<times> state" where
  "createPaymentRequest userId n amountMsats cur layer assetId pr st =
     (case getPaymentRequestByNonce st n of
        Some r \<Rightarrow> (None, st)
      | None \<Rightarrow>
          (Some (length (payment_requests st)),
           st\<lparr>payment_requests := payment_requests st @
             [\<lparr>payment_user_id = userId, nonce = n, amount_msats = amountMsats, currency = cur,
               settlement_layer = layer, asset_identifier = assetId, invoice = pr\<rparr>]\<rparr>))"

section \<open>The UMA service (services/uma.js)\<close>

subsection \<open>Settlement options and currencies\<close>

record asset_entry =
  identifier' :: chain_data
  multipliers :: "(string \<times> int) list"

record settlement_option =
  settlementLayer :: string
  assets :: "asset_entry list"

text \<open>
  buildSettlementOptions: the loop over \<open>Object.entries(chains)\<close>. An entry for which
  \<open>CHAIN_MAPPING[chainName.toLowerCase()]\<close> is falsy is skipped (\<open>continue\<close>). For an
  inherited value the destructured \<open>layer\<close> and \<open>asset\<close> are \<open>undefined\<close>, and
  \<open>layer.toUpperCase()\<close> throws a TypeError. The identifier is
  \<open>layer === 'spark' ? chainData.address || chainData : `${asset}_${layer.toUpperCase()}`\<close>;
  on a plain string \<open>chainData.address\<close> is \<open>undefined\<close>.
\<close>

fun buildSettlementOptionsLoop ::
  "env \<Rightarrow> (string \<times> chain_data) list \<Rightarrow> string list \<Rightarrow> error + settlement_option list" where
  "buildSettlementOptionsLoop e [] currencies = Inr []"
| "buildSettlementOptionsLoop e ((chainName, chainData) # rest) currencies =
     (case getProperty (CHAIN_MAPPING e) (toLowerCase chainName) of
        Undefined \<Rightarrow> buildSettlementOptionsLoop e rest currencies
      | Inherited \<Rightarrow> Inl (TypeError ''Cannot read properties of undefined'')
      | Own (layer, asset) \<Rightarrow>
          (let ident =
             (if layer = ''spark''
              then (case chainData of
                      Plain s \<Rightarrow> chainData
                    | Formatted a c \<Rightarrow> if a \<noteq> [] then Plain a else chainData)
              else Plain (asset @ ''_'' @ toUpperCase layer))
           in case calculateMultipliers e asset currencies of
                Inl err \<Rightarrow> Inl err
              | Inr ms \<Rightarrow>
                  (case buildSettlementOptionsLoop e rest currencies of
                     Inl err \<Rightarrow> Inl err
                   | Inr settlementOptions \<Rightarrow>
                       Inr (\<lparr>settlementLayer = layer,
                             assets = [\<lparr>identifier' = ident, multipliers = ms\<rparr>]\<rparr>
                            # settlementOptions))))"

definition buildSettlementOptions ::
  "env \<Rightarrow> (string \<times> chain_data) list \<Rightarrow> string list \<Rightarrow> error + settlement_option list" where
  "buildSettlementOptions e chainsObject currencies =
     buildSettlementOptionsLoop e (ownEntries chainsObject) currencies"

record currency_entry =
  currency_code :: string
  currency_name :: string
  currency_symbol :: string
  currency_decimals :: nat
  convertible_min :: int
  convertible_max :: int
  currency_multiplier :: int

text \<open>
  buildCurrencies: the loop over \<open>Object.entries(currencySettings)\<close>. Inactive
  currencies, codes without a base configuration and currencies whose multiplier is
  falsy (\<open>if (!multiplier) { console.warn(...); continue }\<close>) are skipped.
\<close>

fun buildCurrenciesLoop :: "env \<Rightarrow> (string \<times> currency_setting) list \<Rightarrow> error + currency_entry list" where
  "buildCurrenciesLoop e [] = Inr []"
| "buildCurrenciesLoop e ((code, settings) # rest) =
     (if \<not> active settings then buildCurrenciesLoop e rest
      else case CURRENCIES e code of
        None \<Rightarrow> buildCurrenciesLoop e rest
      | Some baseConfig \<Rightarrow>
          (case calculateMultipliers e ''BTC'' [code] of
             Inl err \<Rightarrow> Inl err
           | Inr ms \<Rightarrow>
               (if \<not> truthyNum (map_of ms code) then buildCurrenciesLoop e rest
                else case buildCurrenciesLoop e rest of
                  Inl err \<Rightarrow> Inl err
                | Inr currencies \<Rightarrow>
                    Inr (\<lparr>currency_code = config_code baseConfig,
                          currency_name = config_name baseConfig,
                          currency_symbol = config_symbol baseConfig,
                          currency_decimals = config_decimals baseConfig,
                          convertible_min = minSendable settings,
                          convertible_max = maxSendable settings,
                          currency_multiplier = the (map_of ms code)\<rparr> # currencies))))"

definition buildCurrencies ::
  "env \<Rightarrow> (string \<times> currency_setting) list option \<Rightarrow> error + currency_entry list" where
  "buildCurrencies e currencySettings =
     (case currencySettings of None \<Rightarrow> Inr [] | Some entries \<Rightarrow> buildCurrenciesLoop e entries)"

subsection \<open>The Spark wallet\<close>

definition initializeSparkWallet :: "env \<Rightarrow> state \<Rightarrow> (error + wallet) \<times> state" where
  "initializeSparkWallet e st =
     (case sparkWallet st of
        Some w \<Rightarrow> (Inr w, st)
      | None \<Rightarrow>
          (if \<not> truthy (SPARK_SEED e)
           then (Inl (Error ''SPARK_SEED environment variable is not set''), st)
           else case SparkWallet_initialize e (the (SPARK_SEED e)) of
             Inl err \<Rightarrow> (Inl err, st)
           | Inr w \<Rightarrow> (Inr w, st\<lparr>sparkWallet := Some w\<rparr>)))"

text \<open>
  generateLightningInvoice strips a leading \<open>0x\<close> from the receiver's key, passes the
  key on only when it is truthy, and returns the encoded invoice. An invoice the SDK
  creates is added to \<open>issued\<close>.
\<close>

definition generateLightningInvoice ::
  "env \<Rightarrow> number \<Rightarrow> string \<Rightarrow> string option \<Rightarrow> state \<Rightarrow> (error + string) \<times> state" where
  "generateLightningInvoice e amountMsats description receiverSparkPubkey st =
     (let pubkey =
        (if truthy receiverSparkPubkey \<and> startsWith (the receiverSparkPubkey) ''0x''
         then Some (drop 2 (the receiverSparkPubkey)) else receiverSparkPubkey)
      in case initializeSparkWallet e st of
        (Inl err, st1) \<Rightarrow> (Inl err, st1)
      | (Inr w, st1) \<Rightarrow>
          (let params = \<lparr>amountSats = amountMsats, memo = ''Payment to '' @ description,
                         includeSparkAddress = True,
                         receiverIdentityPubkey = (if truthy pubkey then pubkey else None)\<rparr>
           in case createLightningInvoice e w params of
                Inl err \<Rightarrow> (Inl err, st1)
              | Inr encodedInvoice \<Rightarrow>
                  (Inr encodedInvoice, st1\<lparr>issued := issued st1 @ [(params, encodedInvoice)]\<rparr>)))"

subsection \<open>Phase 1: the lookup response\<close>

definition getBaseUrlForDomain :: "env \<Rightarrow> domain \<Rightarrow> string" where
  "getBaseUrlForDomain e domain =
     (if is_default domain \<and> truthy (BASE_URL e) then the (BASE_URL e)
      else (if NODE_ENV e = Some ''production'' then ''https'' else ''http'')
           @ ''://'' @ domain_name domain)"

text \<open>
  \<open>metadata\<close> holds the array that the code passes to \<open>JSON.stringify\<close>, and
  \<open>payerData\<close> the four fields with their \<open>mandatory\<close> flag. \<open>settlementOptions\<close>
  is \<open>undefined\<close> when the list is empty.
\<close>

record lookup_response =
  lookup_tag :: string
  callback :: string
  lookup_minSendable :: int
  lookup_maxSendable :: int
  metadata :: "(string \<times> string) list"
  commentAllowed :: nat
  currencies_offered :: "currency_entry list"
  payerData :: "(string \<times> bool) list"
  umaVersion :: string
  settlementOptions_offered :: "settlement_option list option"

definition generateLookupResponse ::
  "env \<Rightarrow> state \<Rightarrow> string \<Rightarrow> domain \<Rightarrow> error + lookup_response option" where
  "generateLookupResponse e st uname domain =
     (case getUserByUsernameAndDomain st uname (domain_oid domain) of
        None \<Rightarrow> Inr None
      | Some u \<Rightarrow>
          (let chains = (case user_oid u of Some userId \<Rightarrow> getFormattedAddresses st userId
                                           | None \<Rightarrow> []);
               activeCurrencyCodes =
                 map fst (filter (\<lambda>(code, settings). active settings)
                           (case currency_settings domain of None \<Rightarrow> [] | Some cs \<Rightarrow> cs))
           in case buildSettlementOptions e chains activeCurrencyCodes of
                Inl err \<Rightarrow> Inl err
              | Inr settlementOptions \<Rightarrow>
                  (case buildCurrencies e (currency_settings domain) of
                     Inl err \<Rightarrow> Inl err
                   | Inr currencies \<Rightarrow>
                       (case currency_settings domain of
                          None \<Rightarrow> Inl (TypeError ''Cannot read properties of undefined'')
                        | Some cs \<Rightarrow>
                            (case map_of cs ''BTC'' of
                               None \<Rightarrow> Inl (TypeError ''Cannot read properties of undefined'')
                             | Some btcSettings \<Rightarrow>
                                 Inr (Some
                                   \<lparr>lookup_tag = ''payRequest'',
                                    callback = getBaseUrlForDomain e domain
                                               @ ''/.well-known/lnurlp/'' @ uname,
                                    lookup_minSendable = minSendable btcSettings,
                                    lookup_maxSendable = maxSendable btcSettings,
                                    metadata =
                                      [(''text/plain'',
                                        ''Pay to '' @ orElse (display_name u) uname),
                                       (''text/identifier'', uname @ ''@'' @ domain_name domain)],
                                    commentAllowed = 255,
                                    currencies_offered = currencies,
                                    payerData = [(''name'', False), (''email'', False),
                                                 (''identifier'', False), (''compliance'', False)],
                                    umaVersion = ''1.0'',
                                    settlementOptions_offered =
                                      (if length settlementOptions > 0
                                       then Some settlementOptions else None)\<rparr>))))))"

subsection \<open>Phase 2: the pay response\<close>

record settlement_info =
  layer :: string
  assetIdentifier :: string

record converted_amount =
  amount :: string
  currencyCode :: string
  decimals :: "nat option"
  multiplier :: int
  fee :: int

record success_action =
  action_tag :: string
  action_message :: string

record pay_response =
  pr :: string
  routes :: "string list"
  settlement :: "settlement_info option"
  converted :: converted_amount
  disposable :: bool
  successAction :: success_action

text \<open>
  The block of generatePayResponse that determines \<open>paymentRequest\<close> from the chosen
  settlement layer: the stored address whose chain name equals the layer (compared in
  lower case) for a layer other than \<open>ln\<close> and \<open>spark\<close>, a Lightning invoice for the
  user's Spark public key otherwise. The parameters \<open>settlementLayer\<close> and
  \<open>assetIdentifier\<close> of the source are \<open>reqLayer\<close> and \<open>reqAsset\<close> here.
\<close>

definition determinePaymentRequest ::
  "env \<Rightarrow> user \<Rightarrow> chain_address list \<Rightarrow> number \<Rightarrow> string \<Rightarrow> string option \<Rightarrow> state \<Rightarrow>
   (error + string) \<times> state" where
  "determinePaymentRequest e u userAddresses amountMsats uname reqLayer st =
     (if truthy reqLayer \<and> reqLayer \<noteq> Some ''ln'' \<and> reqLayer \<noteq> Some ''spark''
      then (case find (\<lambda>addr. toLowerCase (chain_name addr) = toLowerCase (the reqLayer))
                   userAddresses of
              None \<Rightarrow>
                (Inl (Error (''Address not found for settlement layer: '' @ the reqLayer)), st)
            | Some selectedAddress \<Rightarrow> (Inr (address selectedAddress), st))
      else if \<not> truthy (spark_public_key u)
      then (Inl (Error (''Lightning payments require a Spark public key ''
                        @ ''to be configured for this user'')), st)
      else generateLightningInvoice e amountMsats uname (spark_public_key u) st)"

text \<open>
  generatePayResponse, in the order of the source: resolve the user (\<open>null\<close> when there
  is none), read the user's addresses, look the nonce up (throw DUPLICATE_NONCE when a
  record exists), determine the payment request, store the payment request record, build
  the settlement info, convert the amount, compose the response.
\<close>

definition generatePayResponse ::
  "env \<Rightarrow> string \<Rightarrow> domain \<Rightarrow> number \<Rightarrow> string \<Rightarrow> string option \<Rightarrow> string option \<Rightarrow> string option \<Rightarrow>
   state \<Rightarrow> (error + pay_response option) \<times> state" where
  "generatePayResponse e uname domain amountMsats n cur reqLayer reqAsset st =
     (case getUserByUsernameAndDomain st uname (domain_oid domain) of
        None \<Rightarrow> (Inr None, st)
      | Some u \<Rightarrow>
     (case user_oid u of
        None \<Rightarrow> (Inr None, st)
      | Some userId \<Rightarrow>
     (let userAddresses = getUserAddresses st userId in
      case getPaymentRequestByNonce st n of
        Some existingPayment \<Rightarrow> (Inl (Error ''DUPLICATE_NONCE''), st)
      | None \<Rightarrow>
     (case determinePaymentRequest e u userAddresses amountMsats uname reqLayer st of
        (Inl err, st1) \<Rightarrow> (Inl err, st1)
      | (Inr paymentRequest, st1) \<Rightarrow>
     (case createPaymentRequest userId n amountMsats cur reqLayer reqAsset
             paymentRequest st1 of
        (None, st2) \<Rightarrow> (Inl (Error ''DUPLICATE_NONCE''), st2)
      | (Some paymentId, st2) \<Rightarrow>
     (let settlementInfo =
            (if truthy reqLayer \<and> truthy reqAsset
             then Some \<lparr>layer = the reqLayer, assetIdentifier = the reqAsset\<rparr>
             else None);
          receiverFees = 0;
          currencyCode = orElse cur ''USD'';
          decimals = map_option config_decimals (CURRENCIES e currencyCode);
          asset = (if \<not> truthy reqLayer \<or> reqLayer = Some ''ln''
                      \<or> reqLayer = Some ''spark''
                   then ''BTC'' else ''USDT'')
      in case calculateMultipliers e asset [currencyCode] of
        Inl err \<Rightarrow> (Inl err, st2)
      | Inr ms \<Rightarrow>
     (case BigInt (Some (numberMinus amountMsats receiverFees)) of
        Inl err \<Rightarrow> (Inl err, st2)
      | Inr dividend \<Rightarrow>
     (case BigInt (map_option Num (map_of ms currencyCode)) of
        Inl err \<Rightarrow> (Inl err, st2)
      | Inr divisor \<Rightarrow>
     (case bigintDiv dividend divisor of
        Inl err \<Rightarrow> (Inl err, st2)
      | Inr amountInCurrencyUnits \<Rightarrow>
          (Inr (Some
             \<lparr>pr = paymentRequest,
              routes = [],
              settlement = settlementInfo,
              converted = \<lparr>amount = integerToString amountInCurrencyUnits,
                           currencyCode = currencyCode,
                           decimals = decimals,
                           multiplier = divisor,
                           fee = receiverFees\<rparr>,
              disposable = False,
              successAction =
                \<lparr>action_tag = ''message'',
                 action_message = ''Payment received! Thank you for paying ''
                                  @ orElse (display_name u) uname @ ''.''\<rparr>\<rparr>),
           st2))))))))))"

section \<open>The HTTP endpoint (server.js)\<close>

text \<open>
  \<open>parseInt(s, 10)\<close>: leading white space is skipped, a sign is read, then the longest
  run of decimal digits; \<open>NaN\<close> when there is no digit. The result is a double:
  \<open>toDouble\<close> rounds an integer to the nearest value with a 53-bit significand, ties to
  the even significand, and gives an infinity from 2^1024 on.
\<close>

definition isSpace :: "char \<Rightarrow> bool" where
  "isSpace c = (c \<in> set [CHR '' '', CHR 0x09, CHR 0x0A, CHR 0x0B, CHR 0x0C, CHR 0x0D])"

function bitLength :: "int \<Rightarrow> nat" where
  "bitLength n = (if n \<le> 0 then 0 else Suc (bitLength (n div 2)))"
  by pat_completeness auto
termination
  by (relation "measure nat") auto

declare bitLength.simps [simp del]

definition toDouble :: "int \<Rightarrow> number" where
  "toDouble k =
     (let a = \<bar>k\<bar> in
      if a < 2 ^ 53 then Num k
      else
       (let ex = bitLength a - 53;
            q = a div 2 ^ ex;
            r = a mod 2 ^ ex;
            half = 2 ^ (ex - 1);
            q' = (if half < r \<or> (r = half \<and> odd q) then q + 1 else q);
            v = q' * 2 ^ ex
        in if 2 ^ 1024 \<le> v then (if k < 0 then NegInfinity else PosInfinity)
           else Num (if k < 0 then - v else v)))"

definition parseInt :: "string \<Rightarrow> number" where
  "parseInt s =
     (let t = dropWhile isSpace s;
          negative = (t \<noteq> [] \<and> hd t = CHR ''-'');
          u = (if t \<noteq> [] \<and> (hd t = CHR ''-'' \<or> hd t = CHR ''+'') then tl t else t);
          ds = takeWhile isDigit u
      in if ds = [] then NaN
         else toDouble ((if negative then - 1 else 1) * digitsValue ds))"

record request =
  param_username :: string
  hostname :: string
  query_amount :: "string option"
  query_nonce :: "string option"
  query_currency :: "string option"
  query_settlementLayer :: "string option"
  query_assetIdentifier :: "string option"

datatype body = ErrorBody string | LookupBody lookup_response | PayBody pay_response

type_synonym reply = "nat \<times> body"

text \<open>The \<open>catch\<close> block of the handler: the status and reason for a thrown error.\<close>

definition errorReply :: "error \<Rightarrow> reply" where
  "errorReply err =
     (if errorMessage err = ''DUPLICATE_NONCE''
      then (409, ErrorBody ''Duplicate payment request. This nonce has already been used.'')
      else if includesStr (errorMessage err) ''Address not found for settlement layer''
      then (400, ErrorBody (''Unsupported or invalid settlement layer. Check available ''
                            @ ''settlement options from the lookup endpoint.''))
      else (500, ErrorBody ''Internal server error''))"

text \<open>
  The handler of \<open>GET /.well-known/lnurlp/:username\<close>. \<open>now\<close> is the value of
  \<open>Date.now()\<close> and \<open>rnd\<close> the string \<open>Math.random().toString(36).substring(2, 8)\<close>
  at the time of the request; both are inputs of the model, and \<open>generatedNonce\<close> is the
  template literal \<open>`uma_${Date.now()}_${...}`\<close> built from them.

  The framework validates the query against the route's schema before it calls the
  handler; the schema restricts \<open>settlementLayer\<close> to the values of its \<open>enum\<close>.
  \<open>querystringValid\<close> holds of the requests that reach the handler with respect to
  this restriction.
\<close>

definition settlementLayerEnum :: "string list" where
  "settlementLayerEnum =
     [''ln'', ''spark'', ''polygon'', ''ethereum'', ''arbitrum'', ''optimism'', ''base'',
      ''solana'', ''plasma'']"

definition querystringValid :: "request \<Rightarrow> bool" where
  "querystringValid req =
     (case query_settlementLayer req of
        None \<Rightarrow> True
      | Some l \<Rightarrow> l \<in> set settlementLayerEnum)"

definition generatedNonce :: "int \<Rightarrow> string \<Rightarrow> string" where
  "generatedNonce now rnd = ''uma_'' @ integerToString now @ ''_'' @ rnd"

definition handler :: "env \<Rightarrow> int \<Rightarrow> string \<Rightarrow> request \<Rightarrow> state \<Rightarrow> reply \<times> state" where
  "handler e now rnd req st =
     (if \<not> truthy (query_amount req)
      then (let requestDomain = toLowerCase (hostname req) in
            case getDomainByName e requestDomain of
              None \<Rightarrow> ((404, ErrorBody (''Domain '' @ requestDomain @ '' not found'')), st)
            | Some domain \<Rightarrow>
                (case generateLookupResponse e st (param_username req) domain of
                   Inl err \<Rightarrow> (errorReply err, st)
                 | Inr None \<Rightarrow> ((404, ErrorBody ''User not found''), st)
                 | Inr (Some lookupResponse) \<Rightarrow> ((200, LookupBody lookupResponse), st)))
      else
       (let paymentNonce = orElse (query_nonce req) (generatedNonce now rnd);
            amountMsats = parseInt (the (query_amount req))
        in if isNaN amountMsats \<or> lessEqZero amountMsats
           then ((400, ErrorBody ''Invalid amount''), st)
           else
            (let requestDomain = toLowerCase (hostname req) in
             case getDomainByName e requestDomain of
               None \<Rightarrow> ((404, ErrorBody (''Domain '' @ requestDomain @ '' not found'')), st)
             | Some domain \<Rightarrow>
                 (case generatePayResponse e (param_username req) domain amountMsats
                         paymentNonce (query_currency req) (query_settlementLayer req)
                         (query_assetIdentifier req) st of
                    (Inl err, st') \<Rightarrow> (errorReply err, st')
                  | (Inr None, st') \<Rightarrow> ((404, ErrorBody ''User not found''), st')
                  | (Inr (Some payResponse), st') \<Rightarrow> ((200, PayBody payResponse), st')))))"

section \<open>The TypeScript service (class UmaService of umaService.ts)\<close>

text \<open>
  The TypeScript implementation of the same engine, over the SQLite tables of
  db/schema.sql (services/userService.ts, services/paymentService.ts). An \<open>id\<close> is a
  row id, a number that is falsy when it is absent or zero. createPaymentRequest returns
  the row id of the insert, so the test \<open>paymentId === null\<close> that follows it in
  generatePayResponse never holds.

  Modelled from the spec: db/database.ts, which prepares the statements
  \<open>findByUsername\<close>, \<open>findByUserId\<close>, \<open>findByNonce\<close> and \<open>create\<close>, is not among the
  sources. They are read off their names and db/schema.sql: lookups by the named column,
  and an insert that throws when the nonce is taken (\<open>nonce TEXT UNIQUE NOT NULL\<close>).
\<close>

record ts_user =
  ts_id :: "nat option"
  ts_username :: string
  ts_display_name :: "string option"

record ts_chain_address =
  ts_address_user_id :: nat
  ts_chain_name :: string
  ts_address :: string

record ts_payment_request =
  ts_payment_user_id :: nat
  ts_nonce :: string
  ts_amount_msats :: number
  ts_currency :: "string option"
  ts_invoice :: string

record ts_state =
  ts_users :: "ts_user list"
  ts_chain_addresses :: "ts_chain_address list"
  ts_payment_requests :: "ts_payment_request list"
  ts_sparkWallet :: "wallet option"
  ts_issued :: "(invoice_params \<times> string) list"

definition getUserByUsername_ts :: "ts_state \<Rightarrow> string \<Rightarrow> ts_user option" where
  "getUserByUsername_ts st name = find (\<lambda>u. ts_username u = name) (ts_users st)"

definition getUserAddresses_ts :: "ts_state \<Rightarrow> nat \<Rightarrow> ts_chain_address list" where
  "getUserAddresses_ts st userId =
     filter (\<lambda>a. ts_address_user_id a = userId) (ts_chain_addresses st)"

definition getPaymentRequestByNonce_ts :: "ts_state \<Rightarrow> string \<Rightarrow> ts_payment_request option" where
  "getPaymentRequestByNonce_ts st n = find (\<lambda>r. ts_nonce r = n) (ts_payment_requests st)"

definition createPaymentRequest_ts ::
  "nat \<Rightarrow> string \<Rightarrow> number \<Rightarrow> string option \<Rightarrow> string \<Rightarrow> ts_state \<Rightarrow> error + nat \<times> ts_state" where
  "createPaymentRequest_ts userId n amountMsats cur encodedInvoice st =
     (case getPaymentRequestByNonce_ts st n of
        Some r \<Rightarrow> Inl (Error ''UNIQUE constraint failed: payment_requests.nonce'')
      | None \<Rightarrow>
          Inr (Suc (length (ts_payment_requests st)),
               st\<lparr>ts_payment_requests := ts_payment_requests st @
                 [\<lparr>ts_payment_user_id = userId, ts_nonce = n, ts_amount_msats = amountMsats,
                   ts_currency = cur, ts_invoice = encodedInvoice\<rparr>]\<rparr>))"

definition initializeSparkWallet_ts :: "env \<Rightarrow> ts_state \<Rightarrow> (error + wallet) \<times> ts_state" where
  "initializeSparkWallet_ts e st =
     (case ts_sparkWallet st of
        Some w \<Rightarrow> (Inr w, st)
      | None \<Rightarrow>
          (if \<not> truthy (SPARK_SEED e)
           then (Inl (Error ''SPARK_SEED environment variable is not set''), st)
           else case SparkWallet_initialize e (the (SPARK_SEED e)) of
             Inl err \<Rightarrow> (Inl err, st)
           | Inr w \<Rightarrow> (Inr w, st\<lparr>ts_sparkWallet := Some w\<rparr>)))"

text \<open>
  generateLightningInvoice of the TypeScript service: the receiver's key is optional and
  is passed on when it is truthy; without it the invoice is created for the wallet's own
  identity.
\<close>

definition generateLightningInvoice_ts ::
  "env \<Rightarrow> number \<Rightarrow> string \<Rightarrow> string option \<Rightarrow> ts_state \<Rightarrow> (error + string) \<times> ts_state" where
  "generateLightningInvoice_ts e amountMsats description receiverSparkPubkey st =
     (case initializeSparkWallet_ts e st of
        (Inl err, st1) \<Rightarrow> (Inl err, st1)
      | (Inr w, st1) \<Rightarrow>
          (let params = \<lparr>amountSats = amountMsats, memo = ''Payment to '' @ description,
                         includeSparkAddress = True,
                         receiverIdentityPubkey =
                           (if truthy receiverSparkPubkey then receiverSparkPubkey else None)\<rparr>
           in case createLightningInvoice e w params of
                Inl err \<Rightarrow> (Inl err, st1)
              | Inr encodedInvoice \<Rightarrow>
                  (Inr encodedInvoice,
                   st1\<lparr>ts_issued := ts_issued st1 @ [(params, encodedInvoice)]\<rparr>)))"

record ts_pay_response =
  ts_pr :: string
  ts_routes :: "string list"
  ts_settlement :: "settlement_info option"
  ts_disposable :: bool
  ts_successAction :: success_action

text \<open>
  generatePayResponse of the TypeScript service. For a layer that is absent, \<open>ln\<close> or
  \<open>spark\<close> it calls generateLightningInvoice with \<open>sparkAddress?.address\<close>, the
  address of the user's \<open>spark\<close> chain address if there is one; there is no check that
  the user has a key.
\<close>

definition generatePayResponse_ts ::
  "env \<Rightarrow> string \<Rightarrow> number \<Rightarrow> string \<Rightarrow> string option \<Rightarrow> string option \<Rightarrow> string option \<Rightarrow>
   ts_state \<Rightarrow> (error + ts_pay_response option) \<times> ts_state" where
  "generatePayResponse_ts e uname amountMsats n cur reqLayer reqAsset st =
     (case getUserByUsername_ts st uname of
        None \<Rightarrow> (Inr None, st)
      | Some u \<Rightarrow>
     (case ts_id u of
        None \<Rightarrow> (Inr None, st)
      | Some userId \<Rightarrow>
     (if userId = 0 then (Inr None, st)
      else
     (let userAddresses = getUserAddresses_ts st userId;
          sparkAddress = find (\<lambda>addr. ts_chain_name addr = ''spark'') userAddresses
      in case getPaymentRequestByNonce_ts st n of
        Some existingPayment \<Rightarrow> (Inl (Error ''DUPLICATE_NONCE''), st)
      | None \<Rightarrow>
     (case (if truthy reqLayer \<and> reqLayer \<noteq> Some ''ln'' \<and> reqLayer \<noteq> Some ''spark''
            then (case find (\<lambda>addr. toLowerCase (ts_chain_name addr)
                                      = toLowerCase (the reqLayer)) userAddresses of
                    None \<Rightarrow>
                      (Inl (Error (''Address not found for settlement layer: ''
                                   @ the reqLayer)), st)
                  | Some selectedAddress \<Rightarrow> (Inr (ts_address selectedAddress), st))
            else generateLightningInvoice_ts e amountMsats uname
                   (map_option ts_address sparkAddress) st) of
        (Inl err, st1) \<Rightarrow> (Inl err, st1)
      | (Inr paymentRequest, st1) \<Rightarrow>
     (case createPaymentRequest_ts userId n amountMsats cur paymentRequest st1 of
        Inl err \<Rightarrow> (Inl err, st1)
      | Inr (paymentId, st2) \<Rightarrow>
          (Inr (Some
             \<lparr>ts_pr = paymentRequest,
              ts_routes = [],
              ts_settlement =
                (if truthy reqLayer \<and> truthy reqAsset
                 then Some \<lparr>layer = the reqLayer, assetIdentifier = the reqAsset\<rparr>
                 else None),
              ts_disposable = False,
              ts_successAction =
                \<lparr>action_tag = ''message'',
                 action_message = ''Payment received! Thank you for paying ''
                                  @ orElse (ts_display_name u) uname @ ''.''\<rparr>\<rparr>),
           st2)))))))"

section \<open>A concrete deployment\<close>

text \<open>
  The chain mapping and the fixed multipliers are those that the earlier
  services/uma.js carries inline; the currencies table holds the one currency that
  file offers. The store is Scenario A of the specification: alice, with a Spark public
  key and addresses on \<open>ethereum\<close> and \<open>spark\<close>; bob has neither key nor address.
\<close>

definition chainMapping :: "string \<Rightarrow> (string \<times> string) option" where
  "chainMapping = map_of
     [(''spark'', (''spark'', ''BTC'')), (''lightning'', (''ln'', ''BTC'')),
      (''ethereum'', (''ethereum'', ''USDT'')), (''polygon'', (''polygon'', ''USDT'')),
      (''arbitrum'', (''arbitrum'', ''USDT'')), (''optimism'', (''optimism'', ''USDT'')),
      (''base'', (''base'', ''USDT'')), (''solana'', (''solana'', ''USDT'')),
      (''plasma'', (''plasma'', ''USDT''))]"

definition fixedMultipliers :: "string \<Rightarrow> string list \<Rightarrow> error + (string \<times> int) list" where
  "fixedMultipliers asset codes = Inr [(''USD'', 10000), (''SAT'', 1000)]"

definition exampleDomain :: domain where
  "exampleDomain =
     \<lparr>domain_oid = 1, domain_name = ''example.com'', is_default = False,
      currency_settings =
        Some [(''BTC'', \<lparr>active = True, minSendable = 1000, maxSendable = 100000000\<rparr>),
              (''USD'', \<lparr>active = True, minSendable = 1, maxSendable = 100000\<rparr>),
              (''EUR'', \<lparr>active = True, minSendable = 1, maxSendable = 100000\<rparr>)]\<rparr>"

definition exampleEnv :: env where
  "exampleEnv =
     \<lparr>CHAIN_MAPPING = chainMapping,
      CURRENCIES = map_of
        [(''USD'', \<lparr>config_code = ''USD'', config_name = ''US Dollar'',
                    config_symbol = ''$'', config_decimals = 2\<rparr>),
         (''EUR'', \<lparr>config_code = ''EUR'', config_name = ''Euro'',
                    config_symbol = ''E'', config_decimals = 2\<rparr>)],
      calculateMultipliers = fixedMultipliers,
      SPARK_SEED = Some ''seed'',
      BASE_URL = None,
      NODE_ENV = None,
      SparkWallet_initialize = (\<lambda>seed. Inr 7),
      createLightningInvoice = (\<lambda>w params. Inr (''lnbc:'' @ memo params)),
      getDomainByName = (\<lambda>name. if name = ''example.com'' then Some exampleDomain else None)\<rparr>"

definition alice :: user where
  "alice = \<lparr>user_oid = Some 1, username = ''alice'', domain_id = 1,
            display_name = Some ''Alice'', spark_public_key = Some ''02509''\<rparr>"

definition bob :: user where
  "bob = \<lparr>user_oid = Some 2, username = ''bob'', domain_id = 1,
          display_name = None, spark_public_key = None\<rparr>"

definition exampleState :: state where
  "exampleState =
     \<lparr>users = [alice, bob],
      chain_addresses =
        [\<lparr>address_user_id = 1, chain_name = ''ethereum'', address = ''0xABC'', is_active = True\<rparr>,
         \<lparr>address_user_id = 1, chain_name = ''spark'', address = ''02509'', is_active = True\<rparr>],
      payment_requests = [],
      sparkWallet = None,
      issued = []\<rparr>"

text \<open>The same deployment with a Spark SDK whose invoice creation throws.\<close>

definition failingEnv :: env where
  "failingEnv = exampleEnv\<lparr>createLightningInvoice := (\<lambda>w params. Inl (Error ''upstream''))\<rparr>"

text \<open>
  The store after a payment request with nonce \<open>n1\<close> has been recorded, the store with
  the unmapped chain \<open>solana-mainnet\<close> of the seed data among alice's addresses, and a
  phase-2 request for 10000 millisatoshi in USD.
\<close>

definition usedState :: state where
  "usedState = exampleState\<lparr>payment_requests :=
     [\<lparr>payment_user_id = 1, nonce = ''n1'', amount_msats = Num 10000, currency = Some ''USD'',
       settlement_layer = None, asset_identifier = None, invoice = ''lnbc:Payment to alice''\<rparr>]\<rparr>"

definition seededState :: state where
  "seededState = exampleState\<lparr>chain_addresses :=
     [\<lparr>address_user_id = 1, chain_name = ''ethereum'', address = ''0xABC'', is_active = True\<rparr>,
      \<lparr>address_user_id = 1, chain_name = ''solana-mainnet'', address = ''DYw8'', is_active = True\<rparr>,
      \<lparr>address_user_id = 1, chain_name = ''spark'', address = ''02509'', is_active = True\<rparr>]\<rparr>"

definition payRequest :: "string \<Rightarrow> string option \<Rightarrow> request" where
  "payRequest uname n =
     \<lparr>param_username = uname, hostname = ''Example.COM'', query_amount = Some ''10000'',
      query_nonce = n, query_currency = Some ''USD'', query_settlementLayer = None,
      query_assetIdentifier = None\<rparr>"

definition lookupRequest :: "string \<Rightarrow> request" where
  "lookupRequest uname =
     \<lparr>param_username = uname, hostname = ''Example.COM'', query_amount = None,
      query_nonce = None, query_currency = Some ''USD'', query_settlementLayer = None,
      query_assetIdentifier = None\<rparr>"

text \<open>
  The store after \<open>addUserAddress(alice, 'spark', ' ')\<close>, which stores the trimmed
  address, and the store in which alice was created with an address for a chain named
  \<open>constructor\<close>.
\<close>

definition blankSparkState :: state where
  "blankSparkState = exampleState\<lparr>chain_addresses :=
     [\<lparr>address_user_id = 1, chain_name = ''ethereum'', address = ''0xABC'', is_active = True\<rparr>,
      \<lparr>address_user_id = 1, chain_name = ''spark'', address = [], is_active = True\<rparr>]\<rparr>"

definition constructorState :: state where
  "constructorState = exampleState\<lparr>chain_addresses :=
     [\<lparr>address_user_id = 1, chain_name = ''ethereum'', address = ''0xABC'', is_active = True\<rparr>,
      \<lparr>address_user_id = 1, chain_name = ''constructor'', address = ''0xDEF'', is_active = True\<rparr>,
      \<lparr>address_user_id = 1, chain_name = ''spark'', address = ''02509'', is_active = True\<rparr>]\<rparr>"

text \<open>The TypeScript service's tables: bob is registered and has no address.\<close>

definition tsState :: ts_state where
  "tsState =
     \<lparr>ts_users = [\<lparr>ts_id = Some 1, ts_username = ''alice'', ts_display_name = Some ''Alice''\<rparr>,
                  \<lparr>ts_id = Some 2, ts_username = ''bob'', ts_display_name = None\<rparr>],
      ts_chain_addresses =
        [\<lparr>ts_address_user_id = 1, ts_chain_name = ''spark'', ts_address = ''02509''\<rparr>],
      ts_payment_requests = [],
      ts_sparkWallet = None,
      ts_issued = []\<rparr>"

section \<open>Notions used in the statements\<close>

text \<open>
  The user of a call is resolved when the lookup by username and tenant finds a document
  that has an \<open>_id\<close>.
\<close>

definition userResolved :: "state \<Rightarrow> string \<Rightarrow> domain \<Rightarrow> bool" where
  "userResolved st uname domain =
     (case getUserByUsernameAndDomain st uname (domain_oid domain) of
        None \<Rightarrow> False | Some u \<Rightarrow> user_oid u \<noteq> None)"

section \<open>Properties\<close>

subsection \<open>Auxiliary facts\<close>

lemma sdiv_nonneg: "0 \<le> a \<Longrightarrow> 0 < b \<Longrightarrow> a sdiv b = a div (b::int)"
  by (cases "a = 0") (simp_all add: signed_divide_int_def)

lemma BigInt_minus_zero: "BigInt (Some (numberMinus x 0)) = BigInt (Some x)"
  by (cases x) (simp_all add: numberMinus_def)

lemma BigInt_Inr: "(BigInt (Some x) = Inr d) = (x = Num d)"
  by (cases x) auto

lemma BigInt_Inl:
  "(BigInt (Some x) = Inl err)
     = (x \<noteq> Num (case x of Num a \<Rightarrow> a | _ \<Rightarrow> 0)
        \<and> err = RangeError (''The number '' @ numberName x
                   @ '' cannot be converted to a BigInt because it is not an integer''))"
  by (cases x) auto

lemma BigInt_multiplier:
  "BigInt (map_option Num y)
     = (case y of None \<Rightarrow> Inl (TypeError ''Cannot convert undefined to a BigInt'')
               | Some m \<Rightarrow> Inr m)"
  by (cases y) simp_all

lemma generatePayResponse_success:
  assumes "generatePayResponse e uname domain amountMsats n cur reqLayer reqAsset st
             = (Inr (Some resp), st')"
  shows "\<exists>u userId paymentRequest st1 paymentId ms m a.
      getUserByUsernameAndDomain st uname (domain_oid domain) = Some u
    \<and> user_oid u = Some userId
    \<and> getPaymentRequestByNonce st n = None
    \<and> determinePaymentRequest e u (getUserAddresses st userId) amountMsats uname reqLayer st
        = (Inr paymentRequest, st1)
    \<and> createPaymentRequest userId n amountMsats cur reqLayer reqAsset paymentRequest st1
        = (Some paymentId, st')
    \<and> calculateMultipliers e
         (if \<not> truthy reqLayer \<or> reqLayer = Some ''ln'' \<or> reqLayer = Some ''spark''
          then ''BTC'' else ''USDT'') [orElse cur ''USD''] = Inr ms
    \<and> map_of ms (orElse cur ''USD'') = Some m \<and> m \<noteq> 0
    \<and> amountMsats = Num a
    \<and> resp = \<lparr>pr = paymentRequest, routes = [],
              settlement = (if truthy reqLayer \<and> truthy reqAsset
                            then Some \<lparr>layer = the reqLayer, assetIdentifier = the reqAsset\<rparr>
                            else None),
              converted = \<lparr>amount = integerToString (a sdiv m),
                           currencyCode = orElse cur ''USD'',
                           decimals = map_option config_decimals (CURRENCIES e (orElse cur ''USD'')),
                           multiplier = m, fee = 0\<rparr>,
              disposable = False,
              successAction = \<lparr>action_tag = ''message'',
                 action_message = ''Payment received! Thank you for paying ''
                                  @ orElse (display_name u) uname @ ''.''\<rparr>\<rparr>"
  using assms
  unfolding generatePayResponse_def Let_def bigintDiv_def BigInt_minus_zero BigInt_multiplier
  by (auto simp: BigInt_Inr split: option.splits sum.splits prod.splits if_splits)

lemma generatePayResponse_duplicate:
  assumes "getUserByUsernameAndDomain st uname (domain_oid domain) = Some u"
      and "user_oid u = Some userId"
      and "getPaymentRequestByNonce st n = Some r"
  shows "generatePayResponse e uname domain amountMsats n cur reqLayer reqAsset st
           = (Inl (Error ''DUPLICATE_NONCE''), st)"
  using assms by (simp add: generatePayResponse_def)

lemma generatePayResponse_dispatch_error:
  assumes "getUserByUsernameAndDomain st uname (domain_oid domain) = Some u"
      and "user_oid u = Some userId"
      and "getPaymentRequestByNonce st n = None"
      and "determinePaymentRequest e u (getUserAddresses st userId) amountMsats uname reqLayer st
             = (Inl err, st1)"
  shows "generatePayResponse e uname domain amountMsats n cur reqLayer reqAsset st
           = (Inl err, st1)"
  using assms by (simp add: generatePayResponse_def)

lemma getPaymentRequestByNonce_recorded:
  "r \<in> set (payment_requests st) \<Longrightarrow> getPaymentRequestByNonce st (nonce r) \<noteq> None"
  by (auto simp: getPaymentRequestByNonce_def find_None_iff)

lemma determinePaymentRequest_store:
  assumes "determinePaymentRequest e u as amountMsats uname reqLayer st = (res, st1)"
  shows "users st1 = users st \<and> chain_addresses st1 = chain_addresses st
         \<and> payment_requests st1 = payment_requests st"
  using assms
  unfolding determinePaymentRequest_def generateLightningInvoice_def initializeSparkWallet_def Let_def
  by (auto split: option.splits sum.splits prod.splits if_splits)

lemma determinePaymentRequest_error_issued:
  assumes "determinePaymentRequest e u as amountMsats uname reqLayer st = (Inl err, st1)"
  shows "issued st1 = issued st"
  using assms
  unfolding determinePaymentRequest_def generateLightningInvoice_def initializeSparkWallet_def Let_def
  by (auto split: option.splits sum.splits prod.splits if_splits)

lemma includesStr_prefix: "prefix pat s \<Longrightarrow> includesStr s pat"
  by (cases s) simp_all

lemma errorReply_duplicate:
  "errorReply (Error ''DUPLICATE_NONCE'')
     = (409, ErrorBody ''Duplicate payment request. This nonce has already been used.'')"
  by (simp add: errorReply_def)

lemma errorReply_address:
  "errorReply (Error (''Address not found for settlement layer: '' @ l))
     = (400, ErrorBody (''Unsupported or invalid settlement layer. Check available ''
                        @ ''settlement options from the lookup endpoint.''))"
  by (simp add: errorReply_def includesStr_prefix)

lemma parseInt_Nil: "parseInt [] = NaN"
  by (simp add: parseInt_def)

lemma handler_phase2:
  assumes "query_amount req = Some a"
      and "\<not> isNaN (parseInt a)" and "\<not> lessEqZero (parseInt a)"
      and "getDomainByName e (toLowerCase (hostname req)) = Some domain"
  shows "handler e now rnd req st =
     (case generatePayResponse e (param_username req) domain (parseInt a)
             (orElse (query_nonce req) (generatedNonce now rnd))
             (query_currency req) (query_settlementLayer req) (query_assetIdentifier req) st of
        (Inl err, st') \<Rightarrow> (errorReply err, st')
      | (Inr None, st') \<Rightarrow> ((404, ErrorBody ''User not found''), st')
      | (Inr (Some payResponse), st') \<Rightarrow> ((200, PayBody payResponse), st'))"
proof -
  have "a \<noteq> []" using assms(2) parseInt_Nil by (auto simp: isNaN_def)
  then have "truthy (query_amount req)" using assms(1) by (simp add: truthy_def)
  then show ?thesis using assms by (simp add: handler_def Let_def)
qed

lemma orElse_truthy: "s \<noteq> [] \<Longrightarrow> orElse (Some s) d = s"
  by (simp add: orElse_def)

lemma orElse_falsy: "\<not> truthy x \<Longrightarrow> orElse x d = d"
  by (auto simp: orElse_def truthy_def split: option.splits)

lemma generatedNonce_truthy: "orElse (Some (generatedNonce now rnd)) d = generatedNonce now rnd"
  by (simp add: orElse_def generatedNonce_def)

lemma createPaymentRequest_fresh:
  assumes "getPaymentRequestByNonce st n = None"
  shows "\<exists>paymentId st'. createPaymentRequest userId n amountMsats cur reqLayer reqAsset instr st
           = (Some paymentId, st')"
  using assms by (simp add: createPaymentRequest_def)

text \<open>Under these conditions the call does return a response.\<close>

lemma generatePayResponse_returns:
  assumes "getUserByUsernameAndDomain st uname (domain_oid domain) = Some u"
      and "user_oid u = Some userId"
      and "getPaymentRequestByNonce st n = None"
      and "determinePaymentRequest e u (getUserAddresses st userId) (Num a) uname reqLayer st
             = (Inr paymentRequest, st1)"
      and "calculateMultipliers e
             (if \<not> truthy reqLayer \<or> reqLayer = Some ''ln'' \<or> reqLayer = Some ''spark''
              then ''BTC'' else ''USDT'') [orElse cur ''USD''] = Inr ms"
      and "map_of ms (orElse cur ''USD'') = Some m" and "m \<noteq> 0"
  shows "\<exists>resp st'. generatePayResponse e uname domain (Num a) n cur reqLayer reqAsset st
                      = (Inr (Some resp), st')
                  \<and> pr resp = paymentRequest \<and> multiplier (converted resp) = m"
proof -
  have "payment_requests st1 = payment_requests st"
    using determinePaymentRequest_store [OF assms(4)] by simp
  then have "getPaymentRequestByNonce st1 n = None"
    using assms(3) by (simp add: getPaymentRequestByNonce_def)
  from createPaymentRequest_fresh [OF this]
  obtain paymentId st2 where
    "createPaymentRequest userId n (Num a) cur reqLayer reqAsset paymentRequest st1
       = (Some paymentId, st2)"
    by blast
  with assms show ?thesis
    unfolding generatePayResponse_def Let_def bigintDiv_def BigInt_minus_zero BigInt_multiplier
    by auto
qed

lemma integerToString_examples:
  "integerToString 0 = ''0''" "integerToString 1 = ''1''" "integerToString 2 = ''2''"
  by code_simp+

subsection \<open>Currency conversion\<close>

text \<open>
  Claim C1. In a successful pay response the receiver fee is 0 and, for a non-negative
  amount and a multiplier greater than zero, \<open>converted.amount\<close> is the decimal rendering
  of floor((amount - fee) / multiplier), where the multiplier is the one the market-rate
  lookup returned for the requested currency (USD when none is requested) and the asset
  of the chosen layer. The result is a function of the inputs.
\<close>

theorem converted_amount_floor:
  assumes "generatePayResponse e uname domain (Num amountMsats) n cur reqLayer reqAsset st
             = (Inr (Some resp), st')"
      and "0 \<le> amountMsats"
      and "0 < multiplier (converted resp)"
  shows "fee (converted resp) = 0
       \<and> amount (converted resp)
           = integerToString \<lfloor>real_of_int (amountMsats - fee (converted resp))
                               / real_of_int (multiplier (converted resp))\<rfloor>
       \<and> (\<exists>ms. calculateMultipliers e
                  (if \<not> truthy reqLayer \<or> reqLayer = Some ''ln'' \<or> reqLayer = Some ''spark''
                   then ''BTC'' else ''USDT'') [orElse cur ''USD''] = Inr ms
               \<and> map_of ms (orElse cur ''USD'') = Some (multiplier (converted resp)))"
proof -
  from generatePayResponse_success [OF assms(1)]
  obtain ms m where
    ms: "calculateMultipliers e
           (if \<not> truthy reqLayer \<or> reqLayer = Some ''ln'' \<or> reqLayer = Some ''spark''
            then ''BTC'' else ''USDT'') [orElse cur ''USD''] = Inr ms"
      "map_of ms (orElse cur ''USD'') = Some m"
    and resp: "amount (converted resp) = integerToString (amountMsats sdiv m)"
      "multiplier (converted resp) = m" "fee (converted resp) = 0"
    by auto
  have "0 < m" using assms(3) resp(2) by simp
  then have "amountMsats sdiv m = amountMsats div m"
    using assms(2) by (simp add: sdiv_nonneg)
  also have "\<dots> = \<lfloor>real_of_int amountMsats / real_of_int m\<rfloor>"
    by (simp add: floor_divide_of_int_eq)
  finally show ?thesis using ms resp by simp
qed

theorem converted_amount_floor_witness:
  "\<exists>resp st'. generatePayResponse exampleEnv ''alice'' exampleDomain (Num 1999) ''n1'' (Some ''SAT'')
                 None None exampleState = (Inr (Some resp), st')
             \<and> multiplier (converted resp) = 1000 \<and> amount (converted resp) = ''1''"
proof -
  obtain r st' where g: "generatePayResponse exampleEnv ''alice'' exampleDomain (Num 1999) ''n1''
      (Some ''SAT'') None None exampleState = (r, st')"
    by (cases "generatePayResponse exampleEnv ''alice'' exampleDomain (Num 1999) ''n1''
      (Some ''SAT'') None None exampleState")
  have "(case fst (generatePayResponse exampleEnv ''alice'' exampleDomain (Num 1999) ''n1''
      (Some ''SAT'') None None exampleState) of
        Inr (Some resp) \<Rightarrow> multiplier (converted resp) = 1000 | _ \<Rightarrow> False)"
    by code_simp
  with g obtain resp where r: "r = Inr (Some resp)" and m: "multiplier (converted resp) = 1000"
    by (auto split: sum.splits option.splits)
  from converted_amount_floor [OF g [unfolded r]] m
  have "amount (converted resp) = integerToString \<lfloor>real_of_int 1999 / real_of_int 1000\<rfloor>"
    by simp
  also have "\<lfloor>real_of_int 1999 / real_of_int 1000\<rfloor> = (1::int)" by simp
  finally show ?thesis using g r m by (simp add: integerToString_examples)
qed

text \<open>The three conversions that the specification lists, at the multiplier 1000.\<close>

lemma converted_amount_examples:
  "(case fst (generatePayResponse exampleEnv ''alice'' exampleDomain (Num 1999) ''n1'' (Some ''SAT'')
               None None exampleState) of
      Inr (Some resp) \<Rightarrow> amount (converted resp) = ''1'' | _ \<Rightarrow> False)"
  "(case fst (generatePayResponse exampleEnv ''alice'' exampleDomain (Num 2000) ''n1'' (Some ''SAT'')
               None None exampleState) of
      Inr (Some resp) \<Rightarrow> amount (converted resp) = ''2'' | _ \<Rightarrow> False)"
  "(case fst (generatePayResponse exampleEnv ''alice'' exampleDomain (Num 999) ''n1'' (Some ''SAT'')
               None None exampleState) of
      Inr (Some resp) \<Rightarrow> amount (converted resp) = ''0'' | _ \<Rightarrow> False)"
  by code_simp+

text \<open>
  The amount reaches the conversion as the double that \<open>parseInt\<close> returns: an integer
  above 2^53 is rounded before it is converted.
\<close>

lemma parseInt_rounds:
  "parseInt ''10000'' = Num 10000"
  "parseInt ''9007199254740999'' = Num 9007199254741000"
  by code_simp+

subsection \<open>The nonce\<close>

text \<open>
  Claim C2, as amended. The code has no reservation step: the nonce is only looked up
  before the payment request is determined, and the record is inserted afterwards. When
  the user is resolved, the nonce is not recorded, the layer is absent, \<open>ln\<close> or
  \<open>spark\<close>, the user has a Spark key and the invoice generation throws, the call throws
  the same error, the payment requests and the issued invoices are as before, and the
  nonce is still not recorded.
\<close>

theorem invoice_failure_keeps_nonce_unrecorded:
  assumes "getUserByUsernameAndDomain st uname (domain_oid domain) = Some u"
      and "user_oid u = Some userId"
      and "getPaymentRequestByNonce st n = None"
      and "\<not> truthy reqLayer \<or> reqLayer = Some ''ln'' \<or> reqLayer = Some ''spark''"
      and "truthy (spark_public_key u)"
      and "generateLightningInvoice e amountMsats uname (spark_public_key u) st = (Inl err, st1)"
  shows "generatePayResponse e uname domain amountMsats n cur reqLayer reqAsset st = (Inl err, st1)
       \<and> payment_requests st1 = payment_requests st
       \<and> issued st1 = issued st
       \<and> getPaymentRequestByNonce st1 n = None"
proof -
  have d: "determinePaymentRequest e u (getUserAddresses st userId) amountMsats uname reqLayer st
          = (Inl err, st1)"
    using assms(4-6) by (auto simp: determinePaymentRequest_def)
  have p: "payment_requests st1 = payment_requests st"
    using determinePaymentRequest_store [OF d] by simp
  have i: "issued st1 = issued st"
    using determinePaymentRequest_error_issued [OF d] .
  from p have "getPaymentRequestByNonce st1 n = None"
    using assms(3) by (simp add: getPaymentRequestByNonce_def)
  with p i generatePayResponse_dispatch_error [OF assms(1-3) d] show ?thesis by simp
qed

theorem invoice_failure_keeps_nonce_unrecorded_witness:
  "generatePayResponse failingEnv ''alice'' exampleDomain (Num 10000) ''n1'' (Some ''USD'') None None
      exampleState = (Inl (Error ''upstream''), exampleState\<lparr>sparkWallet := Some 7\<rparr>)
   \<and> payment_requests (exampleState\<lparr>sparkWallet := Some 7\<rparr>) = payment_requests exampleState
   \<and> issued (exampleState\<lparr>sparkWallet := Some 7\<rparr>) = issued exampleState
   \<and> getPaymentRequestByNonce (exampleState\<lparr>sparkWallet := Some 7\<rparr>) ''n1'' = None"
proof -
  have 1: "getUserByUsernameAndDomain exampleState ''alice'' (domain_oid exampleDomain) = Some alice"
    by code_simp
  have 2: "user_oid alice = Some 1" by (simp add: alice_def)
  have 3: "getPaymentRequestByNonce exampleState ''n1'' = None" by code_simp
  have 4: "\<not> truthy None \<or> None = Some ''ln'' \<or> None = Some ''spark''" by (simp add: truthy_def)
  have 5: "truthy (spark_public_key alice)" by (simp add: alice_def truthy_def)
  have 6: "generateLightningInvoice failingEnv (Num 10000) ''alice'' (spark_public_key alice)
             exampleState
             = (Inl (Error ''upstream''), exampleState\<lparr>sparkWallet := Some 7\<rparr>)"
    by code_simp
  from invoice_failure_keeps_nonce_unrecorded [OF 1 2 3 4 5 6, of "Some ''USD''" None]
  show ?thesis .
qed

text \<open>
  The claim as stated fails: after the failed attempt with nonce \<open>n1\<close>, a second call
  with the same nonce (now choosing \<open>ethereum\<close>) is served and records \<open>n1\<close>.
\<close>

theorem nonce_burned_counterexample:
  "generatePayResponse failingEnv ''alice'' exampleDomain (Num 10000) ''n1'' (Some ''USD'') None None
      exampleState = (Inl (Error ''upstream''), exampleState\<lparr>sparkWallet := Some 7\<rparr>)
   \<and> (case generatePayResponse failingEnv ''alice'' exampleDomain (Num 10000) ''n1'' (Some ''USD'')
              (Some ''ethereum'') None (exampleState\<lparr>sparkWallet := Some 7\<rparr>) of
         (Inr (Some resp), st') \<Rightarrow> pr resp = ''0xABC'' \<and> map nonce (payment_requests st') = [''n1'']
       | _ \<Rightarrow> False)"
  by code_simp

text \<open>
  Claim C3. When a payment request with the nonce is recorded, a phase-2 call with that
  nonce for a resolved user throws DUPLICATE_NONCE and leaves the state as it is, so no
  payment request is written. The handler answers the error with status 409: a request
  that the route's schema admits, with a valid amount, a known domain and that nonce, is
  answered 409 with the state unchanged.
\<close>

theorem duplicate_nonce_rejected:
  assumes "r \<in> set (payment_requests st)" and "nonce r = n"
      and "userResolved st uname domain"
  shows "generatePayResponse e uname domain amountMsats n cur reqLayer reqAsset st
           = (Inl (Error ''DUPLICATE_NONCE''), st)
       \<and> (\<forall>req a now rnd.
             param_username req = uname \<and> query_nonce req = Some n \<and> n \<noteq> []
             \<and> query_amount req = Some a \<and> \<not> isNaN (parseInt a) \<and> \<not> lessEqZero (parseInt a)
             \<and> querystringValid req
             \<and> getDomainByName e (toLowerCase (hostname req)) = Some domain \<longrightarrow>
             handler e now rnd req st
               = ((409, ErrorBody ''Duplicate payment request. This nonce has already been used.''),
                  st))"
proof -
  from assms(1,2) have "getPaymentRequestByNonce st n \<noteq> None"
    using getPaymentRequestByNonce_recorded by blast
  then obtain r' where r': "getPaymentRequestByNonce st n = Some r'" by auto
  from assms(3) obtain u userId where
    u: "getUserByUsernameAndDomain st uname (domain_oid domain) = Some u" "user_oid u = Some userId"
    by (auto simp: userResolved_def split: option.splits)
  have engine: "generatePayResponse e uname domain amt n cur' lyr asset st
           = (Inl (Error ''DUPLICATE_NONCE''), st)" for amt cur' lyr asset
    using generatePayResponse_duplicate [OF u r'] .
  have "handler e now rnd req st
          = ((409, ErrorBody ''Duplicate payment request. This nonce has already been used.''), st)"
    if "param_username req = uname" "query_nonce req = Some n" "n \<noteq> []"
       "query_amount req = Some a" "\<not> isNaN (parseInt a)" "\<not> lessEqZero (parseInt a)"
       "getDomainByName e (toLowerCase (hostname req)) = Some domain"
    for req a now rnd
  proof -
    have "orElse (query_nonce req) (generatedNonce now rnd) = n"
      using that(2,3) by (simp add: orElse_truthy)
    with handler_phase2 [OF that(4-7), of now rnd st] engine that(1) show ?thesis
      by (simp add: errorReply_duplicate)
  qed
  with engine show ?thesis by blast
qed

theorem duplicate_nonce_rejected_witness:
  "generatePayResponse exampleEnv ''alice'' exampleDomain (Num 10000) ''n1'' (Some ''USD'') None None
      usedState = (Inl (Error ''DUPLICATE_NONCE''), usedState)
   \<and> handler exampleEnv 1700000000000 ''k3j9x2'' (payRequest ''alice'' (Some ''n1'')) usedState
       = ((409, ErrorBody ''Duplicate payment request. This nonce has already been used.''),
          usedState)"
proof -
  have 1: "hd (payment_requests usedState) \<in> set (payment_requests usedState)"
    by (simp add: usedState_def)
  have 2: "nonce (hd (payment_requests usedState)) = ''n1''"
    by (simp add: usedState_def)
  have 3: "userResolved usedState ''alice'' exampleDomain"
    by code_simp
  have 4: "param_username (payRequest ''alice'' (Some ''n1'')) = ''alice''
         \<and> query_nonce (payRequest ''alice'' (Some ''n1'')) = Some ''n1'' \<and> ''n1'' \<noteq> []
         \<and> query_amount (payRequest ''alice'' (Some ''n1'')) = Some ''10000''
         \<and> \<not> isNaN (parseInt ''10000'') \<and> \<not> lessEqZero (parseInt ''10000'')
         \<and> querystringValid (payRequest ''alice'' (Some ''n1''))
         \<and> getDomainByName exampleEnv (toLowerCase (hostname (payRequest ''alice'' (Some ''n1''))))
             = Some exampleDomain"
    by code_simp
  note t = duplicate_nonce_rejected [OF 1 2 3, of exampleEnv "Num 10000" "Some ''USD''" None None]
  from t [THEN conjunct2, rule_format, OF 4]
  have "handler exampleEnv 1700000000000 ''k3j9x2'' (payRequest ''alice'' (Some ''n1'')) usedState
       = ((409, ErrorBody ''Duplicate payment request. This nonce has already been used.''),
          usedState)" .
  with t [THEN conjunct1] show ?thesis by (rule conjI)
qed

text \<open>
  Claim C10. A request without a nonce (absent or empty) is not rejected for it: it is
  answered exactly as the same request carrying the nonce \<open>uma_\<close>, the current time in
  milliseconds, \<open>_\<close> and the random suffix. With a valid amount and a known domain the
  handler passes that nonce to generatePayResponse and answers from its result, so the
  nonce that is looked up and recorded for such a request is the generated one.
\<close>

theorem missing_nonce_generated:
  assumes "\<not> truthy (query_nonce req)"
  shows "handler e now rnd req st
           = handler e now rnd
               (req\<lparr>query_nonce := Some (''uma_'' @ integerToString now @ ''_'' @ rnd)\<rparr>) st
       \<and> (\<forall>a domain.
             query_amount req = Some a \<and> \<not> isNaN (parseInt a) \<and> \<not> lessEqZero (parseInt a)
             \<and> getDomainByName e (toLowerCase (hostname req)) = Some domain \<longrightarrow>
             handler e now rnd req st =
               (case generatePayResponse e (param_username req) domain (parseInt a)
                       (''uma_'' @ integerToString now @ ''_'' @ rnd)
                       (query_currency req) (query_settlementLayer req)
                       (query_assetIdentifier req) st of
                  (Inl err, st') \<Rightarrow> (errorReply err, st')
                | (Inr None, st') \<Rightarrow> ((404, ErrorBody ''User not found''), st')
                | (Inr (Some payResponse), st') \<Rightarrow> ((200, PayBody payResponse), st')))"
proof -
  have n: "orElse (query_nonce req) (generatedNonce now rnd) = generatedNonce now rnd"
    using assms by (simp add: orElse_falsy)
  have n': "orElse (Some (generatedNonce now rnd)) (generatedNonce now rnd)
             = generatedNonce now rnd"
    by (rule generatedNonce_truthy)
  have 1: "handler e now rnd req st
          = handler e now rnd (req\<lparr>query_nonce := Some (generatedNonce now rnd)\<rparr>) st"
    by (simp add: handler_def Let_def n n' cong: option.case_cong sum.case_cong prod.case_cong if_cong)
  have 2: "handler e now rnd req st =
               (case generatePayResponse e (param_username req) domain (parseInt a)
                       (generatedNonce now rnd)
                       (query_currency req) (query_settlementLayer req)
                       (query_assetIdentifier req) st of
                  (Inl err, st') \<Rightarrow> (errorReply err, st')
                | (Inr None, st') \<Rightarrow> ((404, ErrorBody ''User not found''), st')
                | (Inr (Some payResponse), st') \<Rightarrow> ((200, PayBody payResponse), st'))"
    if "query_amount req = Some a" "\<not> isNaN (parseInt a)" "\<not> lessEqZero (parseInt a)"
       "getDomainByName e (toLowerCase (hostname req)) = Some domain" for a domain
    using handler_phase2 [OF that, of now rnd st] n by simp
  from 1 2 show ?thesis unfolding generatedNonce_def by blast
qed

theorem missing_nonce_generated_witness:
  "handler exampleEnv 1700000000000 ''k3j9x2'' (payRequest ''alice'' None) exampleState
     = handler exampleEnv 1700000000000 ''k3j9x2''
         (payRequest ''alice'' (Some ''uma_1700000000000_k3j9x2'')) exampleState
   \<and> handler exampleEnv 1700000000000 ''k3j9x2'' (payRequest ''alice'' None) exampleState
     = (case generatePayResponse exampleEnv ''alice'' exampleDomain (Num 10000)
               ''uma_1700000000000_k3j9x2'' (Some ''USD'') None None exampleState of
          (Inl err, st') \<Rightarrow> (errorReply err, st')
        | (Inr None, st') \<Rightarrow> ((404, ErrorBody ''User not found''), st')
        | (Inr (Some payResponse), st') \<Rightarrow> ((200, PayBody payResponse), st'))
   \<and> fst (fst (handler exampleEnv 1700000000000 ''k3j9x2'' (payRequest ''alice'' None) exampleState))
       = 200
   \<and> map nonce (payment_requests
        (snd (handler exampleEnv 1700000000000 ''k3j9x2'' (payRequest ''alice'' None) exampleState)))
       = [''uma_1700000000000_k3j9x2'']"
proof -
  have 1: "\<not> truthy (query_nonce (payRequest ''alice'' None))"
    by (simp add: payRequest_def truthy_def)
  have 2: "(payRequest ''alice'' None)
             \<lparr>query_nonce := Some (''uma_'' @ integerToString 1700000000000 @ ''_'' @ ''k3j9x2'')\<rparr>
             = payRequest ''alice'' (Some ''uma_1700000000000_k3j9x2'')"
    by code_simp
  have 3: "fst (fst (handler exampleEnv 1700000000000 ''k3j9x2''
                  (payRequest ''alice'' (Some ''uma_1700000000000_k3j9x2'')) exampleState)) = 200"
    by code_simp
  have 4: "map nonce (payment_requests (snd (handler exampleEnv 1700000000000 ''k3j9x2''
                  (payRequest ''alice'' (Some ''uma_1700000000000_k3j9x2'')) exampleState)))
             = [''uma_1700000000000_k3j9x2'']"
    by code_simp
  have 5: "query_amount (payRequest ''alice'' None) = Some ''10000''
         \<and> \<not> isNaN (parseInt ''10000'') \<and> \<not> lessEqZero (parseInt ''10000'')
         \<and> getDomainByName exampleEnv (toLowerCase (hostname (payRequest ''alice'' None)))
             = Some exampleDomain"
    by code_simp
  have 6: "''uma_'' @ integerToString 1700000000000 @ ''_'' @ ''k3j9x2'' = ''uma_1700000000000_k3j9x2''"
    by code_simp
  have 7: "parseInt ''10000'' = Num 10000" by code_simp
  have 8: "param_username (payRequest ''alice'' None) = ''alice''
         \<and> query_currency (payRequest ''alice'' None) = Some ''USD''
         \<and> query_settlementLayer (payRequest ''alice'' None) = None
         \<and> query_assetIdentifier (payRequest ''alice'' None) = None"
    by (simp add: payRequest_def)
  note t = missing_nonce_generated [OF 1, of exampleEnv 1700000000000 "''k3j9x2''" exampleState]
  from t [THEN conjunct1]
  have a: "handler exampleEnv 1700000000000 ''k3j9x2'' (payRequest ''alice'' None) exampleState
     = handler exampleEnv 1700000000000 ''k3j9x2''
         (payRequest ''alice'' (Some ''uma_1700000000000_k3j9x2'')) exampleState"
    unfolding 2 .
  from t [THEN conjunct2, rule_format, OF 5]
  have b: "handler exampleEnv 1700000000000 ''k3j9x2'' (payRequest ''alice'' None) exampleState
     = (case generatePayResponse exampleEnv ''alice'' exampleDomain (Num 10000)
               ''uma_1700000000000_k3j9x2'' (Some ''USD'') None None exampleState of
          (Inl err, st') \<Rightarrow> (errorReply err, st')
        | (Inr None, st') \<Rightarrow> ((404, ErrorBody ''User not found''), st')
        | (Inr (Some payResponse), st') \<Rightarrow> ((200, PayBody payResponse), st'))"
    unfolding 6 7 by (simp only: 8)
  from a b 3 4 show ?thesis by (simp only: simp_thms)
qed

text \<open>
  Replay protection for such a request rests on the generated value: a second request
  without a nonce at the same time and with the same random suffix is rejected.
\<close>

lemma generated_nonce_collision:
  "fst (handler exampleEnv 1700000000000 ''k3j9x2'' (payRequest ''alice'' None)
         (snd (handler exampleEnv 1700000000000 ''k3j9x2'' (payRequest ''alice'' None) exampleState)))
     = (409, ErrorBody ''Duplicate payment request. This nonce has already been used.'')"
  by code_simp

subsection \<open>The payment instruction\<close>

text \<open>
  Claim C4. For a resolved user, a nonce that is not recorded and a chosen layer (not
  empty, not \<open>ln\<close> and not \<open>spark\<close>, the layers that are served by an invoice) for
  which the user has no active stored address, chain names compared in lower case, the
  call throws the address-not-found error and the state is unchanged: no payment request
  is recorded for the nonce afterwards. The handler answers this error with status 400.
\<close>

theorem address_not_found_unchanged:
  assumes "getUserByUsernameAndDomain st uname (domain_oid domain) = Some u"
      and "user_oid u = Some userId"
      and "l \<noteq> []" and "l \<noteq> ''ln''" and "l \<noteq> ''spark''"
      and "\<forall>a\<in>set (getUserAddresses st userId). toLowerCase (chain_name a) \<noteq> toLowerCase l"
      and "getPaymentRequestByNonce st n = None"
  shows "generatePayResponse e uname domain amountMsats n cur (Some l) reqAsset st
           = (Inl (Error (''Address not found for settlement layer: '' @ l)), st)
       \<and> getPaymentRequestByNonce
           (snd (generatePayResponse e uname domain amountMsats n cur (Some l) reqAsset st)) n = None
       \<and> errorReply (Error (''Address not found for settlement layer: '' @ l))
           = (400, ErrorBody (''Unsupported or invalid settlement layer. Check available ''
                              @ ''settlement options from the lookup endpoint.''))"
proof -
  have "find (\<lambda>addr. toLowerCase (chain_name addr) = toLowerCase l) (getUserAddresses st userId)
          = None"
    using assms(6) by (simp add: find_None_iff)
  then have "determinePaymentRequest e u (getUserAddresses st userId) amountMsats uname (Some l) st
          = (Inl (Error (''Address not found for settlement layer: '' @ l)), st)"
    using assms(3-5) by (simp add: determinePaymentRequest_def truthy_def)
  from generatePayResponse_dispatch_error [OF assms(1,2,7) this]
  have g: "generatePayResponse e uname domain amountMsats n cur (Some l) reqAsset st
           = (Inl (Error (''Address not found for settlement layer: '' @ l)), st)" .
  then have s: "getPaymentRequestByNonce
           (snd (generatePayResponse e uname domain amountMsats n cur (Some l) reqAsset st)) n = None"
    using assms(7) by (simp only: snd_conv)
  from g s errorReply_address [of l] show ?thesis by (intro conjI)
qed

theorem address_not_found_unchanged_witness:
  "generatePayResponse exampleEnv ''alice'' exampleDomain (Num 10000) ''n1'' (Some ''USD'')
      (Some ''polygon'') (Some ''USDT_POLYGON'') exampleState
     = (Inl (Error ''Address not found for settlement layer: polygon''), exampleState)
   \<and> getPaymentRequestByNonce exampleState ''n1'' = None
   \<and> fst (errorReply (Error ''Address not found for settlement layer: polygon'')) = 400"
proof -
  have 1: "getUserByUsernameAndDomain exampleState ''alice'' (domain_oid exampleDomain) = Some alice"
    by code_simp
  have 2: "user_oid alice = Some 1" by (simp add: alice_def)
  have 3: "\<forall>a\<in>set (getUserAddresses exampleState 1).
             toLowerCase (chain_name a) \<noteq> toLowerCase ''polygon''"
    by code_simp
  have 4: "getPaymentRequestByNonce exampleState ''n1'' = None" by code_simp
  from address_not_found_unchanged [OF 1 2 _ _ _ 3 4, of exampleEnv "Num 10000" "Some ''USD''"
      "Some ''USDT_POLYGON''"] 4
  show ?thesis by simp
qed

text \<open>
  Scenario B of the specification at the endpoint: the request is answered 400 and the
  store is as before.
\<close>

lemma address_not_found_scenario:
  "handler exampleEnv 1700000000000 ''k3j9x2''
      ((payRequest ''alice'' (Some ''n1''))\<lparr>query_settlementLayer := Some ''polygon''\<rparr>) exampleState
     = ((400, ErrorBody (''Unsupported or invalid settlement layer. Check available ''
                         @ ''settlement options from the lookup endpoint.'')), exampleState)"
  by code_simp

subsection \<open>The settlement identity\<close>

lemma generateLightningInvoice_ts_result:
  assumes "generateLightningInvoice_ts e amountMsats uname None ts = (Inr encodedInvoice, ts1)"
  shows "ts_payment_requests ts1 = ts_payment_requests ts
       \<and> ts_issued ts1 = ts_issued ts @
            [(\<lparr>amountSats = amountMsats, memo = ''Payment to '' @ uname,
               includeSparkAddress = True, receiverIdentityPubkey = None\<rparr>, encodedInvoice)]"
  using assms
  unfolding generateLightningInvoice_ts_def initializeSparkWallet_ts_def Let_def
  by (auto simp: truthy_def split: option.splits sum.splits prod.splits if_splits)

text \<open>
  Claim C7, as amended. In the JavaScript service (services/uma.js), for a resolved user
  without a Spark public key, a nonce that is not recorded and a layer that is absent,
  empty, \<open>ln\<close> or \<open>spark\<close>, the call throws the missing-key error and the state is
  unchanged: no invoice is issued and no payment request is recorded. The TypeScript
  service (services/umaService.ts) has no such requirement: for a user without a
  \<open>spark\<close> address it requests the invoice without a receiver identity, and when the
  Spark SDK creates it the call answers with that invoice and records the payment
  request.
\<close>

theorem missing_spark_key_fails:
  "(getUserByUsernameAndDomain st uname (domain_oid domain) = Some u
     \<and> user_oid u = Some userId
     \<and> \<not> truthy (spark_public_key u)
     \<and> (\<not> truthy reqLayer \<or> reqLayer = Some ''ln'' \<or> reqLayer = Some ''spark'')
     \<and> getPaymentRequestByNonce st n = None \<longrightarrow>
     generatePayResponse e uname domain amountMsats n cur reqLayer reqAsset st
       = (Inl (Error (''Lightning payments require a Spark public key ''
                      @ ''to be configured for this user'')), st))
   \<and> (getUserByUsername_ts ts uname = Some tu
       \<and> ts_id tu = Some tid \<and> tid \<noteq> 0
       \<and> find (\<lambda>addr. ts_chain_name addr = ''spark'') (getUserAddresses_ts ts tid) = None
       \<and> (\<not> truthy reqLayer \<or> reqLayer = Some ''ln'' \<or> reqLayer = Some ''spark'')
       \<and> getPaymentRequestByNonce_ts ts n = None
       \<and> generateLightningInvoice_ts e amountMsats uname None ts = (Inr encodedInvoice, ts1) \<longrightarrow>
       generatePayResponse_ts e uname amountMsats n cur reqLayer reqAsset ts
         = (Inr (Some \<lparr>ts_pr = encodedInvoice, ts_routes = [],
                       ts_settlement =
                         (if truthy reqLayer \<and> truthy reqAsset
                          then Some \<lparr>layer = the reqLayer, assetIdentifier = the reqAsset\<rparr>
                          else None),
                       ts_disposable = False,
                       ts_successAction =
                         \<lparr>action_tag = ''message'',
                          action_message = ''Payment received! Thank you for paying ''
                                           @ orElse (ts_display_name tu) uname @ ''.''\<rparr>\<rparr>),
            ts1\<lparr>ts_payment_requests := ts_payment_requests ts1 @
                  [\<lparr>ts_payment_user_id = tid, ts_nonce = n, ts_amount_msats = amountMsats,
                    ts_currency = cur, ts_invoice = encodedInvoice\<rparr>]\<rparr>)
       \<and> ts_issued ts1 = ts_issued ts @
            [(\<lparr>amountSats = amountMsats, memo = ''Payment to '' @ uname,
               includeSparkAddress = True, receiverIdentityPubkey = None\<rparr>, encodedInvoice)])"
proof (intro conjI impI)
  assume a: "getUserByUsernameAndDomain st uname (domain_oid domain) = Some u
     \<and> user_oid u = Some userId
     \<and> \<not> truthy (spark_public_key u)
     \<and> (\<not> truthy reqLayer \<or> reqLayer = Some ''ln'' \<or> reqLayer = Some ''spark'')
     \<and> getPaymentRequestByNonce st n = None"
  then have "determinePaymentRequest e u (getUserAddresses st userId) amountMsats uname reqLayer st
          = (Inl (Error (''Lightning payments require a Spark public key ''
                         @ ''to be configured for this user'')), st)"
    by (auto simp: determinePaymentRequest_def)
  with a generatePayResponse_dispatch_error [of st uname domain u userId n e amountMsats reqLayer]
  show "generatePayResponse e uname domain amountMsats n cur reqLayer reqAsset st
       = (Inl (Error (''Lightning payments require a Spark public key ''
                      @ ''to be configured for this user'')), st)"
    by blast
next
  assume a: "getUserByUsername_ts ts uname = Some tu
       \<and> ts_id tu = Some tid \<and> tid \<noteq> 0
       \<and> find (\<lambda>addr. ts_chain_name addr = ''spark'') (getUserAddresses_ts ts tid) = None
       \<and> (\<not> truthy reqLayer \<or> reqLayer = Some ''ln'' \<or> reqLayer = Some ''spark'')
       \<and> getPaymentRequestByNonce_ts ts n = None
       \<and> generateLightningInvoice_ts e amountMsats uname None ts = (Inr encodedInvoice, ts1)"
  then have i: "generateLightningInvoice_ts e amountMsats uname None ts = (Inr encodedInvoice, ts1)"
    by blast
  note r = generateLightningInvoice_ts_result [OF i]
  from r a have f: "getPaymentRequestByNonce_ts ts1 n = None"
    by (simp add: getPaymentRequestByNonce_ts_def)
  then have c: "createPaymentRequest_ts tid n amountMsats cur encodedInvoice ts1
        = Inr (Suc (length (ts_payment_requests ts1)),
               ts1\<lparr>ts_payment_requests := ts_payment_requests ts1 @
                  [\<lparr>ts_payment_user_id = tid, ts_nonce = n, ts_amount_msats = amountMsats,
                    ts_currency = cur, ts_invoice = encodedInvoice\<rparr>]\<rparr>)"
    by (simp add: createPaymentRequest_ts_def)
  from a have u: "getUserByUsername_ts ts uname = Some tu" "ts_id tu = Some tid" "tid \<noteq> 0"
      "find (\<lambda>addr. ts_chain_name addr = ''spark'') (getUserAddresses_ts ts tid) = None"
    and f0: "getPaymentRequestByNonce_ts ts n = None"
    by blast+
  from a consider "\<not> truthy reqLayer" | "reqLayer = Some ''ln''" | "reqLayer = Some ''spark''"
    by blast
  then show "generatePayResponse_ts e uname amountMsats n cur reqLayer reqAsset ts
         = (Inr (Some \<lparr>ts_pr = encodedInvoice, ts_routes = [],
                       ts_settlement =
                         (if truthy reqLayer \<and> truthy reqAsset
                          then Some \<lparr>layer = the reqLayer, assetIdentifier = the reqAsset\<rparr>
                          else None),
                       ts_disposable = False,
                       ts_successAction =
                         \<lparr>action_tag = ''message'',
                          action_message = ''Payment received! Thank you for paying ''
                                           @ orElse (ts_display_name tu) uname @ ''.''\<rparr>\<rparr>),
            ts1\<lparr>ts_payment_requests := ts_payment_requests ts1 @
                  [\<lparr>ts_payment_user_id = tid, ts_nonce = n, ts_amount_msats = amountMsats,
                    ts_currency = cur, ts_invoice = encodedInvoice\<rparr>]\<rparr>)"
  proof cases
    case 1
    with u f0 i c show ?thesis by (simp add: generatePayResponse_ts_def Let_def)
  next
    case 2
    with u f0 i c show ?thesis by (simp add: generatePayResponse_ts_def Let_def truthy_def)
  next
    case 3
    with u f0 i c show ?thesis by (simp add: generatePayResponse_ts_def Let_def truthy_def)
  qed
  from r show "ts_issued ts1 = ts_issued ts @
            [(\<lparr>amountSats = amountMsats, memo = ''Payment to '' @ uname,
               includeSparkAddress = True, receiverIdentityPubkey = None\<rparr>, encodedInvoice)]"
    by blast
qed

theorem missing_spark_key_fails_witness:
  "generatePayResponse exampleEnv ''bob'' exampleDomain (Num 10000) ''n2'' None None None exampleState
     = (Inl (Error ''Lightning payments require a Spark public key to be configured for this user''),
        exampleState)
   \<and> fst (generatePayResponse_ts exampleEnv ''bob'' (Num 10000) ''n2'' None None None tsState)
     = Inr (Some \<lparr>ts_pr = ''lnbc:Payment to bob'', ts_routes = [], ts_settlement = None,
                  ts_disposable = False,
                  ts_successAction =
                    \<lparr>action_tag = ''message'',
                     action_message = ''Payment received! Thank you for paying bob.''\<rparr>\<rparr>)"
proof -
  have 1: "getUserByUsernameAndDomain exampleState ''bob'' (domain_oid exampleDomain) = Some bob
     \<and> user_oid bob = Some 2
     \<and> \<not> truthy (spark_public_key bob)
     \<and> (\<not> truthy None \<or> None = Some ''ln'' \<or> None = Some ''spark'')
     \<and> getPaymentRequestByNonce exampleState ''n2'' = None"
    by code_simp
  have 2: "getUserByUsername_ts tsState ''bob''
             = Some \<lparr>ts_id = Some 2, ts_username = ''bob'', ts_display_name = None\<rparr>
       \<and> ts_id \<lparr>ts_id = Some 2, ts_username = ''bob'', ts_display_name = None\<rparr> = Some 2
       \<and> (2::nat) \<noteq> 0
       \<and> find (\<lambda>addr. ts_chain_name addr = ''spark'') (getUserAddresses_ts tsState 2) = None
       \<and> (\<not> truthy None \<or> None = Some ''ln'' \<or> None = Some ''spark'')
       \<and> getPaymentRequestByNonce_ts tsState ''n2'' = None
       \<and> generateLightningInvoice_ts exampleEnv (Num 10000) ''bob'' None tsState
           = (Inr ''lnbc:Payment to bob'',
              tsState\<lparr>ts_sparkWallet := Some 7,
                      ts_issued := [(\<lparr>amountSats = Num 10000, memo = ''Payment to bob'',
                                      includeSparkAddress = True,
                                      receiverIdentityPubkey = None\<rparr>, ''lnbc:Payment to bob'')]\<rparr>)"
    by code_simp
  note t = missing_spark_key_fails [of exampleState "''bob''" exampleDomain bob 2 None "''n2''"
      exampleEnv "Num 10000" None None tsState
      "\<lparr>ts_id = Some 2, ts_username = ''bob'', ts_display_name = None\<rparr>" 2
      "''lnbc:Payment to bob''"
      "tsState\<lparr>ts_sparkWallet := Some 7,
                      ts_issued := [(\<lparr>amountSats = Num 10000, memo = ''Payment to bob'',
                                      includeSparkAddress = True,
                                      receiverIdentityPubkey = None\<rparr>, ''lnbc:Payment to bob'')]\<rparr>"]
  from t [THEN conjunct1, THEN mp, OF 1]
  have a: "generatePayResponse exampleEnv ''bob'' exampleDomain (Num 10000) ''n2'' None None None
             exampleState
     = (Inl (Error ''Lightning payments require a Spark public key to be configured for this user''),
        exampleState)"
    by simp
  from t [THEN conjunct2, THEN mp, OF 2, THEN conjunct1]
  have "fst (generatePayResponse_ts exampleEnv ''bob'' (Num 10000) ''n2'' None None None tsState)
     = Inr (Some \<lparr>ts_pr = ''lnbc:Payment to bob'', ts_routes = [], ts_settlement = None,
                  ts_disposable = False,
                  ts_successAction =
                    \<lparr>action_tag = ''message'',
                     action_message = ''Payment received! Thank you for paying bob.''\<rparr>\<rparr>)"
    by (simp add: truthy_def orElse_def)
  with a show ?thesis by (rule conjI)
qed

text \<open>
  The claim as stated fails in the TypeScript service: bob has no \<open>spark\<close> address, and
  a call without a layer issues an invoice without a receiver identity, answers with it
  and records the payment request.
\<close>

theorem missing_spark_key_counterexample:
  "find (\<lambda>addr. ts_chain_name addr = ''spark'') (getUserAddresses_ts tsState 2) = None
   \<and> (case generatePayResponse_ts exampleEnv ''bob'' (Num 10000) ''n2'' None None None tsState of
         (Inr (Some resp), ts') \<Rightarrow>
            ts_pr resp = ''lnbc:Payment to bob''
          \<and> map (\<lambda>i. receiverIdentityPubkey (fst i)) (ts_issued ts') = [None]
          \<and> map ts_nonce (ts_payment_requests ts') = [''n2'']
       | _ \<Rightarrow> False)"
  by code_simp

text \<open>
  Claim C8, as amended. In a successful pay response the settlement descriptor is present
  exactly when the call supplied both a non-empty settlement layer and a non-empty asset
  identifier, whatever the layer; it then carries those two values.
\<close>

theorem settlement_descriptor_presence:
  assumes "generatePayResponse e uname domain amountMsats n cur reqLayer reqAsset st
             = (Inr (Some resp), st')"
  shows "(settlement resp \<noteq> None) = (truthy reqLayer \<and> truthy reqAsset)
       \<and> (\<forall>s. settlement resp = Some s \<longrightarrow>
              reqLayer = Some (layer s) \<and> reqAsset = Some (assetIdentifier s))"
proof -
  from generatePayResponse_success [OF assms]
  have "settlement resp = (if truthy reqLayer \<and> truthy reqAsset
                            then Some \<lparr>layer = the reqLayer, assetIdentifier = the reqAsset\<rparr>
                            else None)"
    by auto
  then show ?thesis by (auto simp: truthy_def split: option.splits)
qed

theorem settlement_descriptor_presence_witness:
  "\<exists>resp st'. generatePayResponse exampleEnv ''alice'' exampleDomain (Num 10000) ''n1'' (Some ''USD'')
                 (Some ''ethereum'') (Some ''USDT_ETHEREUM'') exampleState = (Inr (Some resp), st')
     \<and> settlement resp = Some \<lparr>layer = ''ethereum'', assetIdentifier = ''USDT_ETHEREUM''\<rparr>"
proof -
  obtain r st' where g: "generatePayResponse exampleEnv ''alice'' exampleDomain (Num 10000) ''n1''
      (Some ''USD'') (Some ''ethereum'') (Some ''USDT_ETHEREUM'') exampleState = (r, st')"
    by (cases "generatePayResponse exampleEnv ''alice'' exampleDomain (Num 10000) ''n1''
      (Some ''USD'') (Some ''ethereum'') (Some ''USDT_ETHEREUM'') exampleState")
  have "(case fst (generatePayResponse exampleEnv ''alice'' exampleDomain (Num 10000) ''n1''
      (Some ''USD'') (Some ''ethereum'') (Some ''USDT_ETHEREUM'') exampleState) of
        Inr (Some resp) \<Rightarrow> True | _ \<Rightarrow> False)"
    by code_simp
  with g obtain resp where r: "r = Inr (Some resp)"
    by (auto split: sum.splits option.splits)
  have t: "truthy (Some ''ethereum'') \<and> truthy (Some ''USDT_ETHEREUM'')"
    by (simp add: truthy_def)
  note p = settlement_descriptor_presence [OF g [unfolded r]]
  from p t have "settlement resp \<noteq> None" by blast
  then obtain s where s: "settlement resp = Some s" by blast
  with p have "Some ''ethereum'' = Some (layer s)" "Some ''USDT_ETHEREUM'' = Some (assetIdentifier s)"
    by blast+
  then have "s = \<lparr>layer = ''ethereum'', assetIdentifier = ''USDT_ETHEREUM''\<rparr>"
    by (cases s) simp
  with s g r show ?thesis by blast
qed

text \<open>
  The claim as stated fails in both directions: choosing \<open>ethereum\<close> without an asset
  identifier yields no descriptor, and choosing the default layer \<open>spark\<close> with an asset
  identifier yields one.
\<close>

theorem settlement_descriptor_counterexample:
  "(case fst (generatePayResponse exampleEnv ''alice'' exampleDomain (Num 10000) ''n1'' (Some ''USD'')
              (Some ''ethereum'') None exampleState) of
      Inr (Some resp) \<Rightarrow> settlement resp = None | _ \<Rightarrow> False)
   \<and> (case fst (generatePayResponse exampleEnv ''alice'' exampleDomain (Num 10000) ''n1'' (Some ''USD'')
              (Some ''spark'') (Some ''BTC'') exampleState) of
      Inr (Some resp) \<Rightarrow> settlement resp = Some \<lparr>layer = ''spark'', assetIdentifier = ''BTC''\<rparr>
    | _ \<Rightarrow> False)"
  by code_simp

subsection \<open>Missing rates\<close>





subsection \<open>Settlement options\<close>

lemma buildSettlementOptionsLoop_append:
  "buildSettlementOptionsLoop e (xs @ ys) currencies
     = (case buildSettlementOptionsLoop e xs currencies of
          Inl err \<Rightarrow> Inl err
        | Inr a \<Rightarrow> (case buildSettlementOptionsLoop e ys currencies of
                      Inl err \<Rightarrow> Inl err
                    | Inr b \<Rightarrow> Inr (a @ b)))"
proof (induction xs)
  case Nil
  show ?case by (simp split: sum.splits)
next
  case (Cons entry xs)
  obtain k v where "entry = (k, v)" by (cases entry)
  with Cons show ?case
    by (simp add: Let_def split: property.splits sum.splits prod.splits)
qed

lemma buildSettlementOptionsLoop_skip:
  assumes "getProperty (CHAIN_MAPPING e) (toLowerCase chainName) = Undefined"
  shows "buildSettlementOptionsLoop e (filter (\<lambda>kv. fst kv \<noteq> chainName) entries) currencies
           = buildSettlementOptionsLoop e entries currencies"
proof (induction entries)
  case Nil
  show ?case by simp
next
  case (Cons entry entries)
  obtain k v where entry: "entry = (k, v)" by (cases entry)
  show ?case
  proof (cases "k = chainName")
    case True
    with assms Cons entry show ?thesis by simp
  next
    case False
    with Cons entry show ?thesis
      by (simp cong: property.case_cong sum.case_cong prod.case_cong)
  qed
qed

lemma ownEntries_filter: "ownEntries (filter P obj) = filter P (ownEntries obj)"
  by (simp add: ownEntries_def filter_sort conj_commute)

lemma buildSettlementOptions_skip:
  assumes "getProperty (CHAIN_MAPPING e) (toLowerCase chainName) = Undefined"
  shows "buildSettlementOptions e (filter (\<lambda>kv. fst kv \<noteq> chainName) chainsObject) currencies
           = buildSettlementOptions e chainsObject currencies"
  by (simp only: buildSettlementOptions_def ownEntries_filter
        buildSettlementOptionsLoop_skip [OF assms])

lemma filter_assign:
  "filter (\<lambda>kv. fst kv \<noteq> c) (assign kvs k v)
     = (if k = c then filter (\<lambda>kv. fst kv \<noteq> c) kvs
        else assign (filter (\<lambda>kv. fst kv \<noteq> c) kvs) k v)"
  by (induction kvs) auto

lemma formatAddresses_filter:
  "formatAddresses (filter (\<lambda>kv. fst kv \<noteq> c) acc) (filter (\<lambda>a. chain_name a \<noteq> c) addrs)
     = filter (\<lambda>kv. fst kv \<noteq> c) (formatAddresses acc addrs)"
proof (induction addrs arbitrary: acc)
  case Nil
  show ?case by simp
next
  case (Cons a addrs)
  show ?case
  proof (cases "chain_name a = ''__proto__''")
    case True
    with Cons [of acc] show ?thesis by auto
  next
    case notp: False
    show ?thesis
    proof (cases "chain_name a = c")
      case True
      then have "filter (\<lambda>kv. fst kv \<noteq> c)
                   (assign acc (chain_name a) (Formatted (address a) (chainIdOf (chain_name a))))
                   = filter (\<lambda>kv. fst kv \<noteq> c) acc"
        by (simp add: filter_assign)
      with True notp
        Cons [of "assign acc (chain_name a) (Formatted (address a) (chainIdOf (chain_name a)))"]
      show ?thesis by simp
    next
      case False
      then have "filter (\<lambda>kv. fst kv \<noteq> c)
                   (assign acc (chain_name a) (Formatted (address a) (chainIdOf (chain_name a))))
                   = assign (filter (\<lambda>kv. fst kv \<noteq> c) acc) (chain_name a)
                       (Formatted (address a) (chainIdOf (chain_name a)))"
        by (simp add: filter_assign)
      with False notp
        Cons [of "assign acc (chain_name a) (Formatted (address a) (chainIdOf (chain_name a)))"]
      show ?thesis by simp
    qed
  qed
qed

lemma getFormattedAddresses_without:
  "getFormattedAddresses
      (st\<lparr>chain_addresses := filter (\<lambda>a. chain_name a \<noteq> c) (chain_addresses st)\<rparr>) userId
     = filter (\<lambda>kv. fst kv \<noteq> c) (getFormattedAddresses st userId)"
proof -
  have "getUserAddresses
          (st\<lparr>chain_addresses := filter (\<lambda>a. chain_name a \<noteq> c) (chain_addresses st)\<rparr>) userId
        = filter (\<lambda>a. chain_name a \<noteq> c) (getUserAddresses st userId)"
    by (simp add: getUserAddresses_def conj_commute conj_left_commute)
  then show ?thesis
    using formatAddresses_filter [of c "[]" "getUserAddresses st userId"]
    by (simp add: getFormattedAddresses_def)
qed

text \<open>
  Claim C6. The identifier of a \<open>spark\<close> entry is \<open>chainData.address || chainData\<close>.
  For a stored address that is the empty string, the record that getFormattedAddresses
  builds has a falsy \<open>address\<close>, the \<open>||\<close> falls through and the identifier is the
  record itself, not the stored string; a plain empty string in the same place is kept
  verbatim. The lookup response of the store with such an address carries the record.
\<close>

theorem settlement_identifier_empty_address:
  "getFormattedAddresses blankSparkState 1
     = [(''ethereum'', Formatted ''0xABC'' (Own 1)), (''spark'', Formatted [] Undefined)]
   \<and> buildSettlementOptions exampleEnv [(''spark'', Formatted [] Undefined)] [''USD'']
       = Inr [\<lparr>settlementLayer = ''spark'',
                assets = [\<lparr>identifier' = Formatted [] Undefined,
                           multipliers = [(''USD'', 10000), (''SAT'', 1000)]\<rparr>]\<rparr>]
   \<and> Formatted [] Undefined \<noteq> Plain []
   \<and> buildSettlementOptions exampleEnv [(''spark'', Plain [])] [''USD'']
       = Inr [\<lparr>settlementLayer = ''spark'',
                assets = [\<lparr>identifier' = Plain [],
                           multipliers = [(''USD'', 10000), (''SAT'', 1000)]\<rparr>]\<rparr>]
   \<and> (case generateLookupResponse exampleEnv blankSparkState ''alice'' exampleDomain of
         Inr (Some r) \<Rightarrow>
           map_option (map (\<lambda>opt. (settlementLayer opt, map identifier' (assets opt))))
             (settlementOptions_offered r)
           = Some [(''ethereum'', [Plain ''USDT_ETHEREUM'']),
                   (''spark'', [Formatted [] Undefined])]
       | _ \<Rightarrow> False)"
  by code_simp

text \<open>
  For every other entry with a mapping the identifier is as the claim says: for a plain
  address string or a record with a non-empty address, a successful
  buildSettlementOptions has, at the entry's place among the entries, the option of the
  mapped layer with one asset, whose identifier is the address verbatim when the layer is
  \<open>spark\<close> and the asset, an underscore and the upper-cased layer otherwise.
\<close>

lemma settlement_identifier_nonempty:
  assumes "getProperty (CHAIN_MAPPING e) (toLowerCase chainName) = Own (lyr, asset)"
      and "chainData = Plain a \<or> (chainData = Formatted a c \<and> a \<noteq> [])"
      and "ownEntries chainsObject = before @ (chainName, chainData) # after"
      and "buildSettlementOptions e chainsObject currencies = Inr opts"
  shows "\<exists>optsB ms optsA.
           buildSettlementOptionsLoop e before currencies = Inr optsB
         \<and> calculateMultipliers e asset currencies = Inr ms
         \<and> buildSettlementOptionsLoop e after currencies = Inr optsA
         \<and> opts = optsB @ \<lparr>settlementLayer = lyr,
                            assets = [\<lparr>identifier' = Plain (if lyr = ''spark'' then a
                                                              else asset @ ''_'' @ toUpperCase lyr),
                                       multipliers = ms\<rparr>]\<rparr> # optsA"
proof -
  from assms(3,4) obtain optsB rest where
    b: "buildSettlementOptionsLoop e before currencies = Inr optsB"
    and r: "buildSettlementOptionsLoop e ((chainName, chainData) # after) currencies = Inr rest"
    and o: "opts = optsB @ rest"
    by (auto simp: buildSettlementOptions_def buildSettlementOptionsLoop_append split: sum.splits)
  from r assms(1) obtain ms optsA where
    m: "calculateMultipliers e asset currencies = Inr ms"
    and a: "buildSettlementOptionsLoop e after currencies = Inr optsA"
    by (auto simp: Let_def split: sum.splits)
  from r m a assms(1,2)
  have "rest = \<lparr>settlementLayer = lyr,
                assets = [\<lparr>identifier' = Plain (if lyr = ''spark'' then a
                                                  else asset @ ''_'' @ toUpperCase lyr),
                           multipliers = ms\<rparr>]\<rparr> # optsA"
    by auto
  with b m a o show ?thesis by blast
qed

lemma settlement_identifier_examples:
  "buildSettlementOptions exampleEnv [(''Polygon'', Formatted ''0xDEF'' (Own 137))] [''USD'']
     = Inr [\<lparr>settlementLayer = ''polygon'',
              assets = [\<lparr>identifier' = Plain ''USDT_POLYGON'',
                         multipliers = [(''USD'', 10000), (''SAT'', 1000)]\<rparr>]\<rparr>]"
  "buildSettlementOptions exampleEnv (getFormattedAddresses exampleState 1) [''USD'']
     = Inr [\<lparr>settlementLayer = ''ethereum'',
              assets = [\<lparr>identifier' = Plain ''USDT_ETHEREUM'',
                         multipliers = [(''USD'', 10000), (''SAT'', 1000)]\<rparr>]\<rparr>,
            \<lparr>settlementLayer = ''spark'',
              assets = [\<lparr>identifier' = Plain ''02509'',
                         multipliers = [(''USD'', 10000), (''SAT'', 1000)]\<rparr>]\<rparr>]"
  by code_simp+

text \<open>
  Claim C9. The Chain Mapping is an object literal, and \<open>CHAIN_MAPPING[name]\<close> also
  finds what the object inherits. The chain name \<open>constructor\<close> has no entry in the
  mapping, yet the lookup gives the inherited function, which is truthy: the entry is not
  skipped, \<open>layer\<close> is \<open>undefined\<close> and \<open>layer.toUpperCase()\<close> throws. The
  lookup response of a user with an address for such a chain fails with a TypeError and
  the discovery request is answered 500, whereas without that address it succeeds with
  the options of the mapped chains.
\<close>

theorem unmapped_chain_constructor_fails:
  "CHAIN_MAPPING exampleEnv (toLowerCase ''constructor'') = None
   \<and> getFormattedAddresses constructorState 1
       = [(''ethereum'', Formatted ''0xABC'' (Own 1)),
          (''constructor'', Formatted ''0xDEF'' Inherited),
          (''spark'', Formatted ''02509'' Undefined)]
   \<and> buildSettlementOptions exampleEnv (getFormattedAddresses constructorState 1) [''USD'']
       = Inl (TypeError ''Cannot read properties of undefined'')
   \<and> generateLookupResponse exampleEnv constructorState ''alice'' exampleDomain
       = Inl (TypeError ''Cannot read properties of undefined'')
   \<and> handler exampleEnv 1700000000000 ''k3j9x2'' (lookupRequest ''alice'') constructorState
       = ((500, ErrorBody ''Internal server error''), constructorState)
   \<and> constructorState\<lparr>chain_addresses :=
         filter (\<lambda>a. chain_name a \<noteq> ''constructor'') (chain_addresses constructorState)\<rparr>
       = exampleState
   \<and> (case generateLookupResponse exampleEnv exampleState ''alice'' exampleDomain of
         Inr (Some r) \<Rightarrow> map_option (map settlementLayer) (settlementOptions_offered r)
                           = Some [''ethereum'', ''spark'']
       | _ \<Rightarrow> False)"
  by code_simp

text \<open>
  A chain name for which the lookup gives \<open>undefined\<close> is skipped as the claim says:
  the options built, or the error thrown, are those of the object without the entry, and
  the lookup response for a store is the one for the store without the addresses of that
  chain.
\<close>

lemma undefined_mapping_skipped:
  assumes "getProperty (CHAIN_MAPPING e) (toLowerCase chainName) = Undefined"
  shows "buildSettlementOptions e chainsObject currencies
           = buildSettlementOptions e (filter (\<lambda>kv. fst kv \<noteq> chainName) chainsObject) currencies
       \<and> generateLookupResponse e st uname domain
           = generateLookupResponse e
               (st\<lparr>chain_addresses := filter (\<lambda>a. chain_name a \<noteq> chainName) (chain_addresses st)\<rparr>)
               uname domain"
proof
  show "buildSettlementOptions e chainsObject currencies
           = buildSettlementOptions e (filter (\<lambda>kv. fst kv \<noteq> chainName) chainsObject) currencies"
    by (simp only: buildSettlementOptions_skip [OF assms])
next
  let ?st' = "st\<lparr>chain_addresses := filter (\<lambda>a. chain_name a \<noteq> chainName) (chain_addresses st)\<rparr>"
  have u: "getUserByUsernameAndDomain ?st' uname (domain_oid domain)
             = getUserByUsernameAndDomain st uname (domain_oid domain)"
    by (simp add: getUserByUsernameAndDomain_def)
  show "generateLookupResponse e st uname domain = generateLookupResponse e ?st' uname domain"
  proof (cases "getUserByUsernameAndDomain st uname (domain_oid domain)")
    case None
    then show ?thesis by (simp add: generateLookupResponse_def u)
  next
    case (Some usr)
    have "(case user_oid usr of Some userId \<Rightarrow> getFormattedAddresses ?st' userId | None \<Rightarrow> [])
            = filter (\<lambda>kv. fst kv \<noteq> chainName)
                (case user_oid usr of Some userId \<Rightarrow> getFormattedAddresses st userId | None \<Rightarrow> [])"
      by (cases "user_oid usr") (simp_all add: getFormattedAddresses_without)
    then show ?thesis
      by (simp add: generateLookupResponse_def u Some Let_def buildSettlementOptions_skip [OF assms])
  qed
qed

lemma undefined_mapping_skipped_example:
  "getProperty (CHAIN_MAPPING exampleEnv) (toLowerCase ''solana-mainnet'') = Undefined"
  "generateLookupResponse exampleEnv seededState ''alice'' exampleDomain
     = generateLookupResponse exampleEnv exampleState ''alice'' exampleDomain"
  by code_simp+

end
